theory Spec2Isabelle
  imports Complex_Main
begin

section \<open>JavaScript values used by the routing core\<close>

text \<open>
  The routing core is JavaScript. Three features of the language decide what the code
  does and are therefore written out in the model:
  \<^item> reading a property of \<open>undefined\<close> throws a \<open>TypeError\<close>: fallible functions
    return \<open>js_error + 'a\<close>, and an object reference that may be \<open>undefined\<close> is an
    \<open>option\<close>;
  \<^item> reading a property that an object does not have gives \<open>undefined\<close>, and arithmetic on
    \<open>undefined\<close> gives \<open>NaN\<close>: a number is a \<open>num\<close>, that is a \<open>real option\<close> whose
    \<open>None\<close> is \<open>NaN\<close>; every comparison with \<open>NaN\<close> is false;
  \<^item> \<open>null\<close>, \<open>undefined\<close> and a number are three different identifiers under \<open>===\<close>.
  Arithmetic on numbers that are not \<open>NaN\<close> is exact real arithmetic (the rounding of
  IEEE doubles is not modelled). A timestamp is the integer of milliseconds that
  \<open>Date.parse\<close> gives for the ISO string the code carries.
\<close>

datatype js_error = TypeError

type_synonym num = "real option"

definition num_add :: "num \<Rightarrow> num \<Rightarrow> num" where
  "num_add a b = (case a of None \<Rightarrow> None | Some x \<Rightarrow> (case b of None \<Rightarrow> None | Some y \<Rightarrow> Some (x + y)))"

definition num_sub :: "num \<Rightarrow> num \<Rightarrow> num" where
  "num_sub a b = (case a of None \<Rightarrow> None | Some x \<Rightarrow> (case b of None \<Rightarrow> None | Some y \<Rightarrow> Some (x - y)))"

definition num_mul :: "num \<Rightarrow> num \<Rightarrow> num" where
  "num_mul a b = (case a of None \<Rightarrow> None | Some x \<Rightarrow> (case b of None \<Rightarrow> None | Some y \<Rightarrow> Some (x * y)))"

definition num_div :: "num \<Rightarrow> real \<Rightarrow> num" where
  \<comment> \<open>division by a non-zero constant of the source (60, 700)\<close>
  "num_div a c = (case a of None \<Rightarrow> None | Some x \<Rightarrow> Some (x / c))"

definition num_sqrt :: "num \<Rightarrow> num" where
  \<comment> \<open>\<open>Math.sqrt\<close>: \<open>NaN\<close> on \<open>NaN\<close> and on a negative number\<close>
  "num_sqrt a = (case a of None \<Rightarrow> None | Some x \<Rightarrow> (if x < 0 then None else Some (sqrt x)))"

definition num_ge :: "num \<Rightarrow> num \<Rightarrow> bool" where
  "num_ge a b = (case a of None \<Rightarrow> False | Some x \<Rightarrow> (case b of None \<Rightarrow> False | Some y \<Rightarrow> x \<ge> y))"

definition num_gt :: "num \<Rightarrow> num \<Rightarrow> bool" where
  "num_gt a b = (case a of None \<Rightarrow> False | Some x \<Rightarrow> (case b of None \<Rightarrow> False | Some y \<Rightarrow> x > y))"

definition num_le :: "num \<Rightarrow> num \<Rightarrow> bool" where
  "num_le a b = (case a of None \<Rightarrow> False | Some x \<Rightarrow> (case b of None \<Rightarrow> False | Some y \<Rightarrow> x \<le> y))"

definition num_lt :: "num \<Rightarrow> num \<Rightarrow> bool" where
  "num_lt a b = (case a of None \<Rightarrow> False | Some x \<Rightarrow> (case b of None \<Rightarrow> False | Some y \<Rightarrow> x < y))"

text \<open>An identifier as \<open>===\<close> sees it: a number, \<open>null\<close> or \<open>undefined\<close>.\<close>

datatype js_id = Num int | Null | Undefined

section \<open>Data: nodes, legs, offers, parameters (types.js, the rows of graph.js)\<close>

datatype EdgeMode = FLIGHT | TRAIN | BUS | RIDESHARE | WALK | METRO | TRAM | SHUTTLE

datatype OfferSourceType = API_LIVE | CACHED | MANUAL_STATIC | ESTIMATED_MODEL

datatype SearchStatus = OK | TIME_BUDGET_EXHAUSTED | NO_FEASIBLE_ROUTE

record location_node =
  node_id :: js_id    \<comment> \<open>\<open>id\<close>: a number for a stored row, \<open>null\<close> for a synthetic address node\<close>
  lat :: real
  lon :: real

text \<open>
  An \<open>edge_leg\<close> object carries the properties the code reads from it. A property that the
  object does not have is \<open>Undefined\<close> (an identifier) or \<open>None\<close> (a number read in
  arithmetic): the transfers synthesized by transfers.js have neither node identifiers nor
  coordinates.
\<close>

record edge_leg =
  origin_node_id :: js_id
  destination_node_id :: js_id
  mode :: EdgeMode
  is_transfer :: int
  distance_km :: "real option"
  duration_min :: int
  co_located :: int
  structure_type :: string
  leg_lat :: num              \<comment> \<open>\<open>edge_leg.lat\<close>\<close>
  leg_lon :: num              \<comment> \<open>\<open>edge_leg.lon\<close>\<close>
  destination_lat :: num
  destination_lon :: num

record offer =
  edge_leg_id :: js_id
  departure_time_utc :: int
  arrival_time_utc :: int
  price_total :: "real option"   \<comment> \<open>\<open>None\<close> is \<open>null\<close>\<close>
  source_type :: OfferSourceType
  is_static :: int

record leg =
  edge_leg :: edge_leg
  offer :: offer

text \<open>A parameter that the caller left out is \<open>None\<close>; the destructuring default applies.\<close>

record params =
  maxExpansions :: "int option"
  timeoutMs :: "int option"
  timeValuePerHour :: "real option"
  transferPenalty :: "real option"
  maxDetourFactor :: "real option"
  riskPenalty :: "real option"

definition dflt :: "'a \<Rightarrow> 'a option \<Rightarrow> 'a" where
  "dflt d v = (case v of None \<Rightarrow> d | Some x \<Rightarrow> x)"

section \<open>Generalized cost (generalizedCost.js)\<close>

definition minutesBetween :: "int \<Rightarrow> int \<Rightarrow> real" where
  "minutesBetween startUtc endUtc = (real_of_int endUtc - real_of_int startUtc) / 60000"

text \<open>
  The object called \<open>partial\<close>: the four properties that \<open>computeLegGeneralizedCost\<close> and
  \<open>shouldPrune\<close> read from it. \<open>origin\<close> is an object with \<open>lat\<close> and \<open>lon\<close>, or
  \<open>undefined\<close> (\<open>None\<close>).
\<close>

record partial =
  genCostSoFar :: num
  transfersSoFar :: num
  partial_arrivalTimeUtc :: int
  origin :: "(num \<times> num) option"

record leg_cost =
  newGenCost :: num
  newTransfers :: num
  legDurationMin :: real

definition computeLegGeneralizedCost :: "partial \<Rightarrow> leg \<Rightarrow> params \<Rightarrow> leg_cost" where
  "computeLegGeneralizedCost p l ps =
     (let tv = dflt 20 (timeValuePerHour ps);
          tp = dflt 6 (transferPenalty ps);
          rp = dflt 0 (riskPenalty ps);
          durationMin = minutesBetween (departure_time_utc (offer l)) (arrival_time_utc (offer l));
          durationHours = durationMin / 60;
          cash = (case price_total (offer l) of None \<Rightarrow> 0 | Some c \<Rightarrow> c);
          isTransfer = (is_transfer (edge_leg l) = 1);
          transferPenaltyCost = (if isTransfer then tp else 0);
          riskCost = rp
      in \<lparr> newGenCost =
             num_add (num_add (num_add (num_add (genCostSoFar p) (Some cash))
               (Some (tv * durationHours))) (Some transferPenaltyCost)) (Some riskCost),
           newTransfers = num_add (transfersSoFar p) (Some (if isTransfer then 1 else 0)),
           legDurationMin = durationMin \<rparr>)"

text \<open>
  \<open>estimateLowerBound\<close> reads \<open>lat\<close> and \<open>lon\<close> of its two arguments. An argument is
  \<open>None\<close> when the reference is \<open>undefined\<close> (the read throws), and otherwise the pair
  of its \<open>lat\<close> and \<open>lon\<close> properties.
\<close>

definition estimateLowerBound ::
  "(num \<times> num) option \<Rightarrow> (num \<times> num) option \<Rightarrow> params \<Rightarrow> js_error + num" where
  "estimateLowerBound originNode destNode ps =
     (case originNode of None \<Rightarrow> Inl TypeError
      | Some (olat, olon) \<Rightarrow>
     (case destNode of None \<Rightarrow> Inl TypeError
      | Some (dlat, dlon) \<Rightarrow>
        (let tv = dflt 20 (timeValuePerHour ps);
             dx = num_sub olat dlat;
             dy = num_sub olon dlon;
             distKm = num_mul (num_sqrt (num_add (num_mul dx dx) (num_mul dy dy))) (Some 111);
             fastModeHours = num_div distKm 700
         in Inr (num_mul (Some tv) fastModeHours))))"

definition node_obj :: "location_node \<Rightarrow> num \<times> num" where
  "node_obj n = (Some (lat n), Some (lon n))"

definition edge_obj :: "edge_leg \<Rightarrow> num \<times> num" where
  "edge_obj e = (leg_lat e, leg_lon e)"

text \<open>\<open>bestCost\<close> is \<open>null\<close> (\<open>None\<close>) or a number.\<close>

definition shouldPrune ::
  "partial \<Rightarrow> leg \<Rightarrow> num option \<Rightarrow> (num \<times> num) option \<Rightarrow> params \<Rightarrow> js_error + bool" where
  "shouldPrune p nextLeg bestCost destNode ps =
     (let mdf = dflt 2.2 (maxDetourFactor ps);
          ng = newGenCost (computeLegGeneralizedCost p nextLeg ps)
      in if (case bestCost of None \<Rightarrow> False | Some b \<Rightarrow> num_ge ng b) then Inr True
         else (case estimateLowerBound (Some (edge_obj (edge_leg nextLeg))) destNode ps of
                 Inl e \<Rightarrow> Inl e
               | Inr lb \<Rightarrow>
                 if (case bestCost of None \<Rightarrow> False | Some b \<Rightarrow> num_ge (num_add ng lb) b)
                 then Inr True
                 else (case origin p of None \<Rightarrow> Inl TypeError
                       | Some (olat, olon) \<Rightarrow>
                       (case destNode of None \<Rightarrow> Inl TypeError
                        | Some (dlat, dlon) \<Rightarrow>
                          (let dx = num_sub olat (destination_lat (edge_leg nextLeg));
                               dy = num_sub olon (destination_lon (edge_leg nextLeg));
                               distSoFar = num_mul (num_sqrt (num_add (num_mul dx dx) (num_mul dy dy))) (Some 111);
                               dx2 = num_sub olat dlat;
                               dy2 = num_sub olon dlon;
                               directDist = num_mul (num_sqrt (num_add (num_mul dx2 dx2) (num_mul dy2 dy2))) (Some 111)
                           in if num_gt distSoFar (num_mul (Some mdf) directDist)
                              then Inr True else Inr False)))))"

section \<open>Branch-and-bound search (search.js)\<close>

record state =
  nodeId :: js_id
  arrivalTimeUtc :: int
  genCost :: num
  transfers :: num
  path :: "leg list"

definition createState :: "js_id \<Rightarrow> int \<Rightarrow> num \<Rightarrow> num \<Rightarrow> leg list \<Rightarrow> state" where
  "createState n a g t p =
     \<lparr> nodeId = n, arrivalTimeUtc = a, genCost = g, transfers = t, path = p \<rparr>"

text \<open>
  The search passes its state objects to \<open>shouldPrune\<close> and \<open>computeLegGeneralizedCost\<close>
  as \<open>partial\<close>. An object made by \<open>createState\<close> has the properties \<open>nodeId\<close>,
  \<open>arrivalTimeUtc\<close>, \<open>genCost\<close>, \<open>transfers\<close> and \<open>path\<close>; it has no \<open>genCostSoFar\<close>,
  no \<open>transfersSoFar\<close> and no \<open>origin\<close>, so these three reads give \<open>undefined\<close>.
\<close>

definition state_as_partial :: "state \<Rightarrow> partial" where
  "state_as_partial s =
     \<lparr> genCostSoFar = None, transfersSoFar = None,
       partial_arrivalTimeUtc = arrivalTimeUtc s, origin = None \<rparr>"

text \<open>
  The dominance key is the string \<open>nodeId:bucket\<close>; the pair of the identifier and the
  bucket stands for it (the string is injective on such pairs).
\<close>

type_synonym dominance_key = "js_id \<times> int"

definition makeDominanceKey :: "js_id \<Rightarrow> int \<Rightarrow> dominance_key" where
  "makeDominanceKey n a = (n, a div (5 * 60 * 1000))"

type_synonym dominance_map = "dominance_key \<Rightarrow> num option"

definition isDominated :: "state \<Rightarrow> dominance_map \<Rightarrow> bool \<times> dominance_map" where
  "isDominated s dominanceMap =
     (let key = makeDominanceKey (nodeId s) (arrivalTimeUtc s)
      in case dominanceMap key of
           None \<Rightarrow> (False, dominanceMap(key \<mapsto> genCost s))
         | Some prevBest \<Rightarrow>
             if num_le prevBest (genCost s) then (True, dominanceMap)
             else (False, dominanceMap(key \<mapsto> genCost s)))"

record place_spec =
  isAddress :: bool
  isArea :: bool
  isHotelQuery :: bool
  nodes :: "location_node list"

definition isDestination :: "state \<Rightarrow> place_spec \<Rightarrow> js_error + bool" where
  "isDestination s destSpec =
     (if isAddress destSpec then
        (case nodes destSpec of [] \<Rightarrow> Inl TypeError
         | n # _ \<Rightarrow> Inr (nodeId s = node_id n))
      else if isArea destSpec \<or> isHotelQuery destSpec then
        Inr (nodeId s \<in> set (map node_id (nodes destSpec)))
      else Inr False)"

record graph =
  graph_nodes :: "location_node list"
  adj :: "js_id \<Rightarrow> leg list option"

text \<open>\<open>new Map(nodes.map((n) => [n.id, n]))\<close> and its \<open>get\<close>: a later entry replaces an earlier one.\<close>

definition nodeById :: "location_node list \<Rightarrow> js_id \<Rightarrow> location_node option" where
  "nodeById ns k = map_of (rev (map (\<lambda>n. (node_id n, n)) ns)) k"

definition node_ref :: "location_node list \<Rightarrow> js_id \<Rightarrow> (num \<times> num) option" where
  "node_ref ns k = map_option node_obj (nodeById ns k)"

text \<open>\<open>destNodes[0].id\<close>: a \<open>TypeError\<close> when the list is empty.\<close>

definition first_dest_id :: "place_spec \<Rightarrow> js_error + js_id" where
  "first_dest_id destSpec = (case nodes destSpec of [] \<Rightarrow> Inl TypeError | n # _ \<Rightarrow> Inr (node_id n))"

text \<open>
  What the search reads from outside: the clock and the random numbers. \<open>elapsed k\<close> is
  \<open>Date.now() - startTime\<close> at the check made when \<open>k\<close> states have been popped,
  \<open>start_iso\<close> the time written into the seed states, and \<open>random_id i\<close> the value of
  \<open>-Math.floor(Math.random() * 1000000)\<close> drawn for the origin node at position \<open>i\<close>.
\<close>

record env =
  elapsed :: "nat \<Rightarrow> int"
  start_iso :: int
  random_id :: "nat \<Rightarrow> int"

fun seed_frontier :: "env \<Rightarrow> nat \<Rightarrow> location_node list \<Rightarrow> state list" where
  "seed_frontier ev i [] = []"
| "seed_frontier ev i (orig # rest) =
     createState
       (if node_id orig = Null \<or> node_id orig = Undefined then Num (random_id ev i) else node_id orig)
       (start_iso ev) (Some 0) (Some 0) []
     # seed_frontier ev (Suc i) rest"

text \<open>
  \<open>frontier.sort((a, b) => a.genCost - b.genCost)\<close>: a stable sort; the comparator's
  \<open>NaN\<close> counts as 0. Insertion from the right keeps equal states in their order. When
  all costs are numbers this is the order of \<open>Array.prototype.sort\<close>. When \<open>NaN\<close>
  costs stand among numbers the comparator is not consistent and the language leaves the
  order to the implementation; the order defined here is then one possible order, not
  necessarily that of the engine.
\<close>

fun insert_state :: "state \<Rightarrow> state list \<Rightarrow> state list" where
  "insert_state s [] = [s]"
| "insert_state s (t # ts) =
     (if num_gt (genCost s) (genCost t) then t # insert_state s ts else s # t # ts)"

definition sort_frontier :: "state list \<Rightarrow> state list" where
  "sort_frontier xs = foldr insert_state xs []"

text \<open>Lines 368 to 387: the successor of a state along a leg, its dominance check, the push.\<close>

definition successor :: "state \<Rightarrow> leg \<Rightarrow> params \<Rightarrow> state" where
  "successor s l ps =
     (let c = computeLegGeneralizedCost (state_as_partial s) l ps
      in createState (destination_node_id (edge_leg l)) (arrival_time_utc (offer l))
           (newGenCost c) (newTransfers c) (path s @ [l]))"

definition pushSuccessor ::
  "state \<Rightarrow> leg \<Rightarrow> params \<Rightarrow> dominance_map \<Rightarrow> state list \<Rightarrow> dominance_map \<times> state list" where
  "pushSuccessor s l ps dominanceMap frontier =
     (let newState = successor s l ps;
          (dominated, dominanceMap') = isDominated newState dominanceMap
      in if dominated then (dominanceMap', frontier)
         else (dominanceMap', frontier @ [newState]))"

text \<open>The loop over the outgoing legs of the popped state.\<close>

fun processLegs ::
  "graph \<Rightarrow> place_spec \<Rightarrow> params \<Rightarrow> num option \<Rightarrow> state \<Rightarrow> leg list
   \<Rightarrow> dominance_map \<Rightarrow> state list \<Rightarrow> js_error + (dominance_map \<times> state list)" where
  "processLegs g destSpec ps bestCost s [] dominanceMap frontier = Inr (dominanceMap, frontier)"
| "processLegs g destSpec ps bestCost s (l # ls) dominanceMap frontier =
     (case first_dest_id destSpec of Inl e \<Rightarrow> Inl e
      | Inr d \<Rightarrow>
     (case shouldPrune (state_as_partial s) l bestCost (node_ref (graph_nodes g) d) ps of
        Inl e \<Rightarrow> Inl e
      | Inr True \<Rightarrow> processLegs g destSpec ps bestCost s ls dominanceMap frontier
      | Inr False \<Rightarrow>
          (case pushSuccessor s l ps dominanceMap frontier of
             (dominanceMap', frontier') \<Rightarrow>
               processLegs g destSpec ps bestCost s ls dominanceMap' frontier')))"

record search_result =
  search_status :: SearchStatus
  best_itinerary :: "state option"
  expansions :: nat

text \<open>The variables of the main loop: frontier, dominanceMap, bestCost, bestState, expansions.\<close>

type_synonym loop_vars = "state list \<times> dominance_map \<times> num option \<times> state option \<times> nat"

datatype step_result = Return search_result | Continue loop_vars

text \<open>One pass through the body of the \<open>while\<close> loop, entered with a non-empty frontier.\<close>

definition loop_body ::
  "env \<Rightarrow> graph \<Rightarrow> place_spec \<Rightarrow> params \<Rightarrow> loop_vars \<Rightarrow> js_error + step_result" where
  "loop_body ev g destSpec ps v =
     (case v of (frontier, dominanceMap, bestCost, bestState, n) \<Rightarrow>
      if elapsed ev n > dflt 5000 (timeoutMs ps) then
        Inr (Return \<lparr> search_status = TIME_BUDGET_EXHAUSTED, best_itinerary = bestState, expansions = n \<rparr>)
      else if int n > dflt 100000 (maxExpansions ps) then
        Inr (Return \<lparr> search_status = TIME_BUDGET_EXHAUSTED, best_itinerary = bestState, expansions = n \<rparr>)
      else
        (case sort_frontier frontier of
           [] \<Rightarrow> Inl TypeError
         | s # rest \<Rightarrow>
           (case isDestination s destSpec of
              Inl e \<Rightarrow> Inl e
            | Inr True \<Rightarrow>
                (let improved = (case bestCost of None \<Rightarrow> True | Some b \<Rightarrow> num_lt (genCost s) b);
                     bestCost' = (if improved then Some (genCost s) else bestCost);
                     bestState' = (if improved then Some s else bestState)
                 in case rest of
                      [] \<Rightarrow> Inr (Continue (rest, dominanceMap, bestCost', bestState', Suc n))
                    | f # _ \<Rightarrow>
                      (case first_dest_id destSpec of Inl e \<Rightarrow> Inl e
                       | Inr d \<Rightarrow>
                       (case estimateLowerBound (node_ref (graph_nodes g) (nodeId f))
                               (node_ref (graph_nodes g) d) ps of
                          Inl e \<Rightarrow> Inl e
                        | Inr lb \<Rightarrow>
                            if (case bestCost' of None \<Rightarrow> False
                                | Some b \<Rightarrow> num_ge (num_add (genCost f) lb) b)
                            then Inr (Return \<lparr> search_status = OK, best_itinerary = bestState',
                                                expansions = Suc n \<rparr>)
                            else Inr (Continue (rest, dominanceMap, bestCost', bestState', Suc n)))))
            | Inr False \<Rightarrow>
                (case adj g (nodeId s) of
                   None \<Rightarrow> Inr (Continue (rest, dominanceMap, bestCost, bestState, Suc n))
                 | Some outgoing \<Rightarrow>
                     (case processLegs g destSpec ps bestCost s outgoing dominanceMap rest of
                        Inl e \<Rightarrow> Inl e
                      | Inr (dominanceMap', frontier') \<Rightarrow>
                          Inr (Continue (frontier', dominanceMap', bestCost, bestState, Suc n)))))))"

function search_loop ::
  "env \<Rightarrow> graph \<Rightarrow> place_spec \<Rightarrow> params \<Rightarrow> loop_vars \<Rightarrow> js_error + search_result" where
  "search_loop ev g destSpec ps v =
     (if fst v = [] then
        Inr \<lparr> search_status = NO_FEASIBLE_ROUTE, best_itinerary = None,
              expansions = snd (snd (snd (snd v))) \<rparr>
      else (case loop_body ev g destSpec ps v of
              Inl e \<Rightarrow> Inl e
            | Inr (Return r) \<Rightarrow> Inr r
            | Inr (Continue v') \<Rightarrow> search_loop ev g destSpec ps v'))"
  by pat_completeness auto
termination
proof (relation "measure (\<lambda>(ev, g, destSpec, ps, v).
          nat (dflt 100000 (maxExpansions ps) + 1 - int (snd (snd (snd (snd v))))))")
  show "wf (measure (\<lambda>(ev, g, destSpec, ps, v).
          nat (dflt 100000 (maxExpansions ps) + 1 - int (snd (snd (snd (snd v)))))))"
    by simp
next
  fix ev :: env and g :: graph and destSpec :: place_spec and ps :: params
    and v :: loop_vars and x2 :: step_result and v' :: loop_vars
  assume "fst v \<noteq> []" and a: "loop_body ev g destSpec ps v = Inr x2" and b: "x2 = Continue v'"
  obtain fr dm bc bs n where v: "v = (fr, dm, bc, bs, n)"
    by (cases v) auto
  from a b v have "\<not> int n > dflt 100000 (maxExpansions ps)"
    by (auto simp: loop_body_def split: if_splits)
  moreover from a b v have "snd (snd (snd (snd v'))) = Suc n"
    by (auto simp: loop_body_def Let_def
             split: if_splits list.splits sum.splits bool.splits option.splits prod.splits)
  ultimately show "((ev, g, destSpec, ps, v'), (ev, g, destSpec, ps, v))
      \<in> measure (\<lambda>(ev, g, destSpec, ps, v).
          nat (dflt 100000 (maxExpansions ps) + 1 - int (snd (snd (snd (snd v))))))"
    using v by simp
qed

declare search_loop.simps [simp del]

text \<open>
  \<open>searchItinerariesDoorToDoor\<close>, with the graph that \<open>buildGraph\<close> returned as an argument.
\<close>

definition searchItinerariesDoorToDoor ::
  "env \<Rightarrow> graph \<Rightarrow> place_spec \<Rightarrow> place_spec \<Rightarrow> params \<Rightarrow> js_error + search_result" where
  "searchItinerariesDoorToDoor ev g originSpec destSpec ps =
     search_loop ev g destSpec ps
       (seed_frontier ev 0 (nodes originSpec), Map.empty, None, None, 0)"

section \<open>Paths and their generalized cost\<close>

text \<open>
  The straight-line distance the code uses for bounding: \<open>sqrt(dx * dx + dy * dy) * 111\<close>
  on the coordinates of two nodes (\<open>distKm\<close> in \<open>estimateLowerBound\<close>, \<open>distApprox\<close> in
  \<open>addTransferEdges\<close>).
\<close>

definition distApprox :: "location_node \<Rightarrow> location_node \<Rightarrow> real" where
  "distApprox a b =
     (let dx = lat a - lat b; dy = lon a - lon b in sqrt (dx * dx + dy * dy) * 111)"

text \<open>
  The generalized cost of a sequence of legs: \<open>computeLegGeneralizedCost\<close> applied leg
  after leg to a partial path that carries the cost so far.
\<close>

fun pathGenCost :: "params \<Rightarrow> num \<Rightarrow> leg list \<Rightarrow> num" where
  "pathGenCost ps g [] = g"
| "pathGenCost ps g (l # ls) =
     pathGenCost ps
       (newGenCost (computeLegGeneralizedCost
          \<lparr> genCostSoFar = g, transfersSoFar = Some 0, partial_arrivalTimeUtc = 0, origin = None \<rparr> l ps))
       ls"

text \<open>A path in the assembled graph: each leg is in the adjacency entry of the node it leaves.\<close>

fun is_path :: "graph \<Rightarrow> js_id \<Rightarrow> leg list \<Rightarrow> js_id \<Rightarrow> bool" where
  "is_path g u [] d = (u = d)"
| "is_path g u (l # ls) d =
     (l \<in> set (case adj g u of None \<Rightarrow> [] | Some out \<Rightarrow> out)
      \<and> is_path g (destination_node_id (edge_leg l)) ls d)"

text \<open>
  The assumption behind the lower bound, leg by leg: the end nodes are in the graph, the
  leg covers their straight-line distance at no more than 700 km/h, and its price is not
  negative.
\<close>

fun within_fast_mode :: "location_node list \<Rightarrow> js_id \<Rightarrow> leg list \<Rightarrow> bool" where
  "within_fast_mode ns u [] = True"
| "within_fast_mode ns u (l # ls) =
     (case nodeById ns u of None \<Rightarrow> False
      | Some a \<Rightarrow>
     (case nodeById ns (destination_node_id (edge_leg l)) of None \<Rightarrow> False
      | Some b \<Rightarrow>
          distApprox a b
            \<le> 700 * (minutesBetween (departure_time_utc (offer l)) (arrival_time_utc (offer l)) / 60)
        \<and> 0 \<le> (case price_total (offer l) of None \<Rightarrow> 0 | Some c \<Rightarrow> c)
        \<and> within_fast_mode ns (destination_node_id (edge_leg l)) ls))"

section \<open>Transfers (transfers.js) and their insertion into the graph (graph.js)\<close>

text \<open>\<open>Math.atan2\<close> on reals.\<close>

definition atan2 :: "real \<Rightarrow> real \<Rightarrow> real" where
  "atan2 y x =
     (if 0 < x then arctan (y / x)
      else if x < 0 then (if 0 \<le> y then arctan (y / x) + pi else arctan (y / x) - pi)
      else if 0 < y then pi / 2 else if y < 0 then - (pi / 2) else 0)"

definition haversine :: "real \<Rightarrow> real \<Rightarrow> real \<Rightarrow> real \<Rightarrow> real" where
  "haversine lat1 lon1 lat2 lon2 =
     (let R = 6371;
          toRad = (\<lambda>d. (d * pi) / 180);
          dLat = toRad (lat2 - lat1);
          dLon = toRad (lon2 - lon1);
          a = (sin (dLat / 2))\<^sup>2 + cos (toRad lat1) * cos (toRad lat2) * (sin (dLon / 2))\<^sup>2
      in R * 2 * atan2 (sqrt a) (sqrt (1 - a)))"

text \<open>\<open>Math.round\<close>: the nearest integer, a half rounding up.\<close>

definition js_round :: "real \<Rightarrow> int" where
  "js_round x = \<lfloor>x + 1 / 2\<rfloor>"

record rideshare_model =
  base_fare :: real
  per_km :: real
  per_min :: real
  avg_speed_kmh :: real
  surge_coeff :: real

definition DEFAULT_RIDESHARE_MODEL :: rideshare_model where
  "DEFAULT_RIDESHARE_MODEL =
     \<lparr> base_fare = 3, per_km = 1.25, per_min = 0.25, avg_speed_kmh = 35, surge_coeff = 1 \<rparr>"

record shuttle_opts =
  flat_price :: "real option"
  shuttle_speed_kmh :: real

definition default_shuttle_opts :: shuttle_opts where
  "default_shuttle_opts = \<lparr> flat_price = Some 12, shuttle_speed_kmh = 25 \<rparr>"

text \<open>
  The three generators. \<open>now\<close> is the reading of \<open>new Date()\<close>. The objects carry the
  properties that the routing core reads; the synthesized \<open>edge_leg\<close> has no node
  identifiers and no coordinates.
\<close>

definition generateWalkTransfer :: "int \<Rightarrow> location_node \<Rightarrow> location_node \<Rightarrow> leg" where
  "generateWalkTransfer now originNode destNode =
     (let distanceKm = haversine (lat originNode) (lon originNode) (lat destNode) (lon destNode);
          durationMin = max 3 (js_round ((distanceKm / 5) * 60));
          arrival = now + durationMin * 60000
      in \<lparr> edge_leg = \<lparr> origin_node_id = Undefined, destination_node_id = Undefined, mode = WALK,
             is_transfer = 1, distance_km = Some distanceKm, duration_min = durationMin,
             co_located = (if distanceKm < 0.3 then 1 else 0), structure_type = ''static'',
             leg_lat = None, leg_lon = None, destination_lat = None, destination_lon = None \<rparr>,
           offer = \<lparr> edge_leg_id = Undefined, departure_time_utc = now, arrival_time_utc = arrival,
             price_total = Some 0, source_type = MANUAL_STATIC, is_static = 1 \<rparr> \<rparr>)"

definition generateRideshareTransfer ::
  "int \<Rightarrow> location_node \<Rightarrow> location_node \<Rightarrow> rideshare_model \<Rightarrow> leg" where
  "generateRideshareTransfer now originNode destNode opts =
     (let distanceKm = haversine (lat originNode) (lon originNode) (lat destNode) (lon destNode);
          durationMin = max 5 (js_round ((distanceKm / avg_speed_kmh opts) * 60));
          price0 = (base_fare opts + per_km opts * distanceKm + per_min opts * real_of_int durationMin)
                     * surge_coeff opts;
          price = real_of_int (js_round (price0 * 100)) / 100;
          arrival = now + durationMin * 60000
      in \<lparr> edge_leg = \<lparr> origin_node_id = Undefined, destination_node_id = Undefined, mode = RIDESHARE,
             is_transfer = 1, distance_km = Some distanceKm, duration_min = durationMin,
             co_located = (if distanceKm < 0.3 then 1 else 0), structure_type = ''dynamic_template'',
             leg_lat = None, leg_lon = None, destination_lat = None, destination_lon = None \<rparr>,
           offer = \<lparr> edge_leg_id = Undefined, departure_time_utc = now, arrival_time_utc = arrival,
             price_total = Some price, source_type = ESTIMATED_MODEL, is_static = 0 \<rparr> \<rparr>)"

definition generateShuttleTransfer ::
  "int \<Rightarrow> location_node \<Rightarrow> location_node \<Rightarrow> shuttle_opts \<Rightarrow> leg" where
  "generateShuttleTransfer now originNode destNode opts =
     (let distanceKm = haversine (lat originNode) (lon originNode) (lat destNode) (lon destNode);
          durationMin = js_round ((distanceKm / shuttle_speed_kmh opts) * 60);
          arrival = now + durationMin * 60000;
          price = dflt 12 (flat_price opts)
      in \<lparr> edge_leg = \<lparr> origin_node_id = Undefined, destination_node_id = Undefined, mode = SHUTTLE,
             is_transfer = 1, distance_km = Some distanceKm, duration_min = durationMin,
             co_located = (if distanceKm < 0.3 then 1 else 0), structure_type = ''static'',
             leg_lat = None, leg_lon = None, destination_lat = None, destination_lon = None \<rparr>,
           offer = \<lparr> edge_leg_id = Undefined, departure_time_utc = now, arrival_time_utc = arrival,
             price_total = Some price, source_type = MANUAL_STATIC, is_static = 1 \<rparr> \<rparr>)"

text \<open>
  \<open>addTransferEdges\<close>: the inner loop over \<open>b\<close> for one \<open>a\<close>, the outer loop over
  \<open>a\<close>, and the function with its default radius. \<open>adj[a.id].push\<close> throws when the
  adjacency has no entry for \<open>a.id\<close>.
\<close>

type_synonym adjacency = "js_id \<Rightarrow> leg list option"

fun addTransfersFrom ::
  "int \<Rightarrow> real \<Rightarrow> location_node \<Rightarrow> location_node list \<Rightarrow> adjacency \<Rightarrow> js_error + adjacency" where
  "addTransfersFrom now radiusKm a [] ad = Inr ad"
| "addTransfersFrom now radiusKm a (b # bs) ad =
     (if node_id a = node_id b then addTransfersFrom now radiusKm a bs ad
      else if distApprox a b > radiusKm then addTransfersFrom now radiusKm a bs ad
      else (case ad (node_id a) of
              None \<Rightarrow> Inl TypeError
            | Some out \<Rightarrow>
                addTransfersFrom now radiusKm a bs
                  (ad(node_id a \<mapsto> out @ [generateWalkTransfer now a b,
                       generateRideshareTransfer now a b DEFAULT_RIDESHARE_MODEL,
                       generateShuttleTransfer now a b default_shuttle_opts]))))"

fun addTransfersAll ::
  "int \<Rightarrow> real \<Rightarrow> location_node list \<Rightarrow> location_node list \<Rightarrow> adjacency \<Rightarrow> js_error + adjacency" where
  "addTransfersAll now radiusKm ns [] ad = Inr ad"
| "addTransfersAll now radiusKm ns (a # as) ad =
     (case addTransfersFrom now radiusKm a ns ad of
        Inl e \<Rightarrow> Inl e
      | Inr ad' \<Rightarrow> addTransfersAll now radiusKm ns as ad')"

definition addTransferEdges ::
  "int \<Rightarrow> location_node list \<Rightarrow> adjacency \<Rightarrow> real option \<Rightarrow> js_error + adjacency" where
  "addTransferEdges now ns ad radiusKm = addTransfersAll now (dflt 3 radiusKm) ns ns ad"

text \<open>The arcs that one node \<open>a\<close> receives from the candidates \<open>bs\<close>.\<close>

definition transfer_arcs :: "int \<Rightarrow> real \<Rightarrow> location_node \<Rightarrow> location_node list \<Rightarrow> leg list" where
  "transfer_arcs now radiusKm a bs =
     concat (map (\<lambda>b. if node_id a = node_id b \<or> distApprox a b > radiusKm then []
                       else [generateWalkTransfer now a b,
                             generateRideshareTransfer now a b DEFAULT_RIDESHARE_MODEL,
                             generateShuttleTransfer now a b default_shuttle_opts]) bs)"

section \<open>The API cache (apiCache.js)\<close>

text \<open>
  A parameters object is a list of properties in the order of \<open>Object.keys\<close>; its values
  are JSON data. Three library functions are arguments of the model: the sha256 hex digest
  of \<open>crypto\<close>, and the two renderings that \<open>JSON.stringify\<close> leaves to the language
  (quoting a string, printing a number), together with \<open>JSON.parse\<close>.
\<close>

datatype 'n json =
    JNull
  | JBool bool
  | JNum 'n
  | JStr string
  | JArr "'n json list"
  | JObj "(string \<times> 'n json) list"

record 'n js_lib =
  sha256_hex :: "string \<Rightarrow> string"
  quote_json :: "string \<Rightarrow> string"
  number_to_string :: "'n \<Rightarrow> string"
  json_parse :: "string \<Rightarrow> 'n json option"

fun join_comma :: "string list \<Rightarrow> string" where
  "join_comma [] = []"
| "join_comma [x] = x"
| "join_comma (x # y # ys) = x @ '','' @ join_comma (y # ys)"

text \<open>
  \<open>JSON.stringify(value, replacer)\<close> without indentation. With an array as replacer
  (\<open>Some ks\<close>) every object of the value, at every depth, is written with the properties
  named in \<open>ks\<close> that it has, in the order of \<open>ks\<close>; without one (\<open>None\<close>) with
  its own properties in their order. Arrays are written in full.
\<close>

fun stringify :: "'n js_lib \<Rightarrow> string list option \<Rightarrow> 'n json \<Rightarrow> string" where
  "stringify lib K JNull = ''null''"
| "stringify lib K (JBool b) = (if b then ''true'' else ''false'')"
| "stringify lib K (JNum n) = number_to_string lib n"
| "stringify lib K (JStr s) = quote_json lib s"
| "stringify lib K (JArr xs) = ''['' @ join_comma (map (stringify lib K) xs) @ '']''"
| "stringify lib K (JObj kvs) =
     (let strs = map (\<lambda>(k, v). (k, stringify lib K v)) kvs;
          keys = (case K of None \<Rightarrow> map fst kvs | Some ks \<Rightarrow> ks);
          members = List.map_filter
            (\<lambda>k. map_option (\<lambda>str. quote_json lib k @ '':'' @ str) (map_of strs k)) keys
      in ''{'' @ join_comma members @ ''}'')"

text \<open>\<open>Object.keys(obj).sort()\<close>: strings in the order of their code units.\<close>

fun str_le :: "string \<Rightarrow> string \<Rightarrow> bool" where
  "str_le [] ys = True"
| "str_le (c # cs) [] = False"
| "str_le (c # cs) (d # ds) =
     (if (of_char c :: nat) < of_char d then True
      else if (of_char d :: nat) < of_char c then False
      else str_le cs ds)"

fun insert_key :: "string \<Rightarrow> string list \<Rightarrow> string list" where
  "insert_key k [] = [k]"
| "insert_key k (x # xs) = (if str_le k x then k # x # xs else x # insert_key k xs)"

definition sort_keys :: "string list \<Rightarrow> string list" where
  "sort_keys ks = foldr insert_key ks []"

definition canonicalHash :: "'n js_lib \<Rightarrow> (string \<times> 'n json) list \<Rightarrow> string" where
  "canonicalHash lib obj =
     (let json = stringify lib (Some (sort_keys (map fst obj))) (JObj obj)
      in sha256_hex lib json)"

text \<open>
  The table \<open>api_cache\<close> with its unique index on provider, endpoint and hash. The
  database is the rows of the table and, for each of the three statements the code sends
  (the SELECT and the UPDATE of \<open>apiCacheGet\<close>, the INSERT of \<open>apiCachePut\<close>), the error
  with which the driver answers it, if any. The SELECT and the INSERT are sent with a
  callback that rejects the promise on an error; the UPDATE is sent without a callback,
  after which the promise is resolved at once, so its error never reaches the promise. A
  promise ends resolved or rejected; an exception thrown inside the callback of the driver
  leaves it unsettled (\<open>Uncaught\<close>).
\<close>

record cache_row =
  row_id :: int
  provider :: string
  endpoint :: string
  canonical_params_hash :: string
  canonical_params_json :: string
  response_body_json :: string
  created_at_utc :: int
  expires_at_utc :: int
  last_used_at_utc :: int
  hit_count :: int

record db =
  api_cache :: "cache_row list"
  select_error :: "string option"
  update_error :: "string option"
  insert_error :: "string option"

datatype 'a outcome = Resolved 'a | Rejected string | Uncaught

definition same_key :: "string \<Rightarrow> string \<Rightarrow> string \<Rightarrow> cache_row \<Rightarrow> bool" where
  "same_key prov endp hash r \<longleftrightarrow>
     provider r = prov \<and> endpoint r = endp \<and> canonical_params_hash r = hash"

definition apiCacheGet ::
  "'n js_lib \<Rightarrow> int \<Rightarrow> db \<Rightarrow> string \<Rightarrow> string \<Rightarrow> (string \<times> 'n json) list
   \<Rightarrow> 'n json outcome \<times> db" where
  "apiCacheGet lib now d prov endp ps =
     (let hash = canonicalHash lib ps
      in case select_error d of
           Some err \<Rightarrow> (Rejected err, d)
         | None \<Rightarrow>
             (case find (same_key prov endp hash) (api_cache d) of
                None \<Rightarrow> (Resolved JNull, d)
              | Some row \<Rightarrow>
                  (let expires = expires_at_utc row;
                       valid = (now < expires);
                       d' = (case update_error d of
                               Some err \<Rightarrow> d
                             | None \<Rightarrow>
                                 d \<lparr> api_cache :=
                                   map (\<lambda>r. if row_id r = row_id row
                                             then r \<lparr> last_used_at_utc := now,
                                                      hit_count := hit_count r + 1 \<rparr>
                                             else r) (api_cache d) \<rparr>)
                   in if valid then
                        (case json_parse lib (response_body_json row) of
                           None \<Rightarrow> (Uncaught, d')
                         | Some v \<Rightarrow> (Resolved v, d'))
                      else (Resolved JNull, d'))))"

text \<open>\<open>new Date(ms)\<close> drops the fraction of its argument, towards zero.\<close>

definition js_trunc :: "real \<Rightarrow> int" where
  "js_trunc x = (if 0 \<le> x then \<lfloor>x\<rfloor> else \<lceil>x\<rceil>)"

definition next_rowid :: "cache_row list \<Rightarrow> int" where
  "next_rowid rows = foldr (\<lambda>r m. max (row_id r) m) rows 0 + 1"

definition apiCachePut ::
  "'n js_lib \<Rightarrow> int \<Rightarrow> db \<Rightarrow> string \<Rightarrow> string \<Rightarrow> (string \<times> 'n json) list \<Rightarrow> 'n json
   \<Rightarrow> real option \<Rightarrow> int outcome \<times> db" where
  "apiCachePut lib now d prov endp ps response ttlHours =
     (let hash = canonicalHash lib ps;
          expires = js_trunc (real_of_int now + dflt 6 ttlHours * 3600 * 1000)
      in case insert_error d of
           Some err \<Rightarrow> (Rejected err, d)
         | None \<Rightarrow>
             (case find (same_key prov endp hash) (api_cache d) of
                Some _ \<Rightarrow> (Rejected ''SQLITE_CONSTRAINT'', d)
              | None \<Rightarrow>
                  (let lastID = next_rowid (api_cache d)
                   in (Resolved lastID,
                       d \<lparr> api_cache := api_cache d @
                         [\<lparr> row_id = lastID, provider = prov, endpoint = endp,
                           canonical_params_hash = hash,
                           canonical_params_json = stringify lib None (JObj ps),
                           response_body_json = stringify lib None response,
                           created_at_utc = now, expires_at_utc = expires,
                           last_used_at_utc = now, hit_count = 0 \<rparr>] \<rparr>))))"

section \<open>Fixtures\<close>

text \<open>
  The two-node graph of the direct-flight scenario: A at (0, 0), B at (0, 1), one flight
  from A to B leaving 2025-11-15T08:00Z, arriving 09:15Z, price 118.
\<close>

definition nodeA :: location_node where
  "nodeA = \<lparr> node_id = Num 1, lat = 0, lon = 0 \<rparr>"

definition nodeB :: location_node where
  "nodeB = \<lparr> node_id = Num 2, lat = 0, lon = 1 \<rparr>"

definition flightAB :: leg where
  "flightAB =
     \<lparr> edge_leg = \<lparr> origin_node_id = Num 1, destination_node_id = Num 2, mode = FLIGHT,
         is_transfer = 0, distance_km = None, duration_min = 75, co_located = 0,
         structure_type = ''static'', leg_lat = None, leg_lon = None,
         destination_lat = None, destination_lon = None \<rparr>,
       offer = \<lparr> edge_leg_id = Num 1, departure_time_utc = 1763193600000,
         arrival_time_utc = 1763198100000, price_total = Some 118, source_type = API_LIVE,
         is_static = 0 \<rparr> \<rparr>"

definition graphAB :: graph where
  "graphAB =
     \<lparr> graph_nodes = [nodeA, nodeB],
       adj = (\<lambda>k. if k = Num 1 then Some [flightAB] else if k = Num 2 then Some [] else None) \<rparr>"

text \<open>The same two nodes with no edge at all.\<close>

definition graphNoEdges :: graph where
  "graphNoEdges =
     \<lparr> graph_nodes = [nodeA, nodeB],
       adj = (\<lambda>k. if k = Num 1 \<or> k = Num 2 then Some [] else None) \<rparr>"

definition default_params :: params where
  "default_params =
     \<lparr> maxExpansions = None, timeoutMs = None, timeValuePerHour = None,
       transferPenalty = None, maxDetourFactor = None, riskPenalty = None \<rparr>"

text \<open>A clock that does not advance during the search.\<close>

definition still_env :: env where
  "still_env = \<lparr> elapsed = (\<lambda>k. 0), start_iso = 1763190000000, random_id = (\<lambda>i. - 1) \<rparr>"

definition area_of :: "location_node list \<Rightarrow> place_spec" where
  "area_of ns = \<lparr> isAddress = False, isArea = True, isHotelQuery = False, nodes = ns \<rparr>"



text \<open>
  A free link from A to B (111 km by the straight-line formula) that takes nine minutes,
  740 km/h.
\<close>

definition fastAB :: leg where
  "fastAB =
     \<lparr> edge_leg = \<lparr> origin_node_id = Num 1, destination_node_id = Num 2, mode = FLIGHT,
         is_transfer = 0, distance_km = None, duration_min = 9, co_located = 0,
         structure_type = ''static'', leg_lat = None, leg_lon = None,
         destination_lat = None, destination_lon = None \<rparr>,
       offer = \<lparr> edge_leg_id = Num 1, departure_time_utc = 1763193600000,
         arrival_time_utc = 1763194140000, price_total = Some 0, source_type = MANUAL_STATIC,
         is_static = 1 \<rparr> \<rparr>"

definition graphFast :: graph where
  "graphFast =
     \<lparr> graph_nodes = [nodeA, nodeB],
       adj = (\<lambda>k. if k = Num 1 then Some [fastAB] else if k = Num 2 then Some [] else None) \<rparr>"

text \<open>
  Two nodes on the parallel of 60 degrees north, 0.03 degrees of longitude apart (about
  1.7 km on the ground, 3.33 km by the straight-line formula), a node C at the place of A,
  and the adjacency that \<open>buildAdjacency\<close> starts from: an empty list for each node.
\<close>

definition node60a :: location_node where
  "node60a = \<lparr> node_id = Num 1, lat = 60, lon = 0 \<rparr>"

definition node60b :: location_node where
  "node60b = \<lparr> node_id = Num 2, lat = 60, lon = 3 / 100 \<rparr>"

definition nodeC :: location_node where
  "nodeC = \<lparr> node_id = Num 3, lat = 0, lon = 0 \<rparr>"

definition empty_adj :: "location_node list \<Rightarrow> adjacency" where
  "empty_adj ns = (\<lambda>k. if k \<in> set (map node_id ns) then Some [] else None)"

text \<open>
  A three-minute metro ride for 1 from A to C, which lies at the place of A, in a graph
  that also holds B.
\<close>

definition metroAC :: leg where
  "metroAC =
     \<lparr> edge_leg = \<lparr> origin_node_id = Num 1, destination_node_id = Num 3, mode = METRO,
         is_transfer = 0, distance_km = None, duration_min = 3, co_located = 1,
         structure_type = ''static'', leg_lat = None, leg_lon = None,
         destination_lat = None, destination_lon = None \<rparr>,
       offer = \<lparr> edge_leg_id = Num 2, departure_time_utc = 1763193600000,
         arrival_time_utc = 1763193780000, price_total = Some 1, source_type = MANUAL_STATIC,
         is_static = 1 \<rparr> \<rparr>"

definition graphMetro :: graph where
  "graphMetro =
     \<lparr> graph_nodes = [nodeA, nodeB, nodeC],
       adj = (\<lambda>k. if k = Num 1 then Some [metroAC]
                  else if k = Num 2 \<or> k = Num 3 then Some [] else None) \<rparr>"

text \<open>
  Stand-ins for the library functions, to have closed terms; no result below depends on
  what they compute.
\<close>

definition stub_lib :: "int js_lib" where
  "stub_lib = \<lparr> sha256_hex = (\<lambda>s. s), quote_json = (\<lambda>s. ''\"'' @ s @ ''\"''),
                number_to_string = (\<lambda>n. if n = 1 then ''1'' else if n = 2 then ''2'' else ''0''),
                json_parse = (\<lambda>s. Some (JStr s)) \<rparr>"

text \<open>
  A parameters object, a cache row stored for it that expires at 13:00, a database that
  holds this row and answers every statement, and one that holds nothing.
\<close>

definition nycParams :: "(string \<times> int json) list" where
  "nycParams = [(''fly_from'', JStr ''NYC'')]"

definition cachedRow :: cache_row where
  "cachedRow =
     \<lparr> row_id = 1, provider = ''tequila'', endpoint = ''search'',
       canonical_params_hash = canonicalHash stub_lib nycParams,
       canonical_params_json = stringify stub_lib None (JObj nycParams),
       response_body_json = ''[]'',
       created_at_utc = 1763190000000, expires_at_utc = 1763211600000,
       last_used_at_utc = 1763190000000, hit_count = 0 \<rparr>"

definition db_of :: "cache_row list \<Rightarrow> db" where
  "db_of rows = \<lparr> api_cache = rows, select_error = None, update_error = None, insert_error = None \<rparr>"

section \<open>Properties of the cost evaluator\<close>

text \<open>
  C7. For a partial object whose \<open>genCostSoFar\<close> and \<open>transfersSoFar\<close> are numbers, the
  new cost is \<open>genCostSoFar + cash + timeValuePerHour * (durationMin / 60) + transferCost +
  riskCost\<close>, with \<open>durationMin\<close> the offer's arrival minus its departure in minutes,
  \<open>cash\<close> the offer's price (0 when null), the transfer cost the transfer penalty exactly
  when \<open>is_transfer = 1\<close>, and the transfer count grows by one exactly then.
\<close>

theorem computeLegGeneralizedCost_formula:
  assumes "genCostSoFar p = Some g" and "transfersSoFar p = Some t"
  shows "computeLegGeneralizedCost p l ps =
     \<lparr> newGenCost = Some (g
          + (case price_total (offer l) of None \<Rightarrow> 0 | Some c \<Rightarrow> c)
          + dflt 20 (timeValuePerHour ps)
              * ((real_of_int (arrival_time_utc (offer l)) - real_of_int (departure_time_utc (offer l))) / 60000 / 60)
          + (if is_transfer (edge_leg l) = 1 then dflt 6 (transferPenalty ps) else 0)
          + dflt 0 (riskPenalty ps)),
       newTransfers = Some (t + (if is_transfer (edge_leg l) = 1 then 1 else 0)),
       legDurationMin = (real_of_int (arrival_time_utc (offer l)) - real_of_int (departure_time_utc (offer l))) / 60000 \<rparr>"
  using assms
  by (simp add: computeLegGeneralizedCost_def minutesBetween_def num_add_def Let_def)

text \<open>
  The direct flight of the fixture from a partial path of cost 0: 118 for the ticket and
  20 per hour for 75 minutes, 143 in all, no transfer.
\<close>

theorem computeLegGeneralizedCost_formula_witness:
  "genCostSoFar \<lparr> genCostSoFar = Some 0, transfersSoFar = Some 0,
       partial_arrivalTimeUtc = 1763190000000, origin = None \<rparr> = Some 0
   \<and> transfersSoFar \<lparr> genCostSoFar = Some 0, transfersSoFar = Some 0,
       partial_arrivalTimeUtc = 1763190000000, origin = None \<rparr> = Some 0
   \<and> computeLegGeneralizedCost
        \<lparr> genCostSoFar = Some 0, transfersSoFar = Some 0,
          partial_arrivalTimeUtc = 1763190000000, origin = None \<rparr> flightAB default_params
      = \<lparr> newGenCost = Some 143, newTransfers = Some 0, legDurationMin = 75 \<rparr>"
  using computeLegGeneralizedCost_formula
    [of "\<lparr> genCostSoFar = Some 0, transfersSoFar = Some 0,
          partial_arrivalTimeUtc = 1763190000000, origin = None \<rparr>" 0 0 flightAB default_params]
  by (simp add: flightAB_def default_params_def dflt_def)


section \<open>Properties of the search\<close>

text \<open>
  Whatever the leg, the best cost and the destination node, \<open>shouldPrune\<close> called on a state
  object of the search throws: the cost it computes is \<open>NaN\<close> (the state has \<open>genCost\<close>,
  not \<open>genCostSoFar\<close>), so neither cost test prunes, and the detour test reads
  \<open>partial.origin.lat\<close> of an object without \<open>origin\<close>.
\<close>

lemma shouldPrune_state_throws:
  "shouldPrune (state_as_partial s) l bestCost destNode ps = Inl TypeError"
  by (cases destNode; cases bestCost)
     (auto simp: shouldPrune_def state_as_partial_def computeLegGeneralizedCost_def
        estimateLowerBound_def edge_obj_def num_add_def num_ge_def Let_def split: prod.splits)


lemma search_loop_empty:
  "search_loop ev g destSpec ps ([], dm, bc, bs, n) =
     Inr \<lparr> search_status = NO_FEASIBLE_ROUTE, best_itinerary = None, expansions = n \<rparr>"
  by (simp add: search_loop.simps)

lemma search_loop_over_budget:
  assumes "fr \<noteq> []" and "int n > dflt 100000 (maxExpansions ps)"
  shows "search_loop ev g destSpec ps (fr, dm, bc, bs, n) =
     Inr \<lparr> search_status = TIME_BUDGET_EXHAUSTED, best_itinerary = bs, expansions = n \<rparr>"
  using assms by (simp add: search_loop.simps [of _ _ _ _ "(fr, dm, bc, bs, n)"] loop_body_def)

lemma loop_body_counts:
  "loop_body ev g destSpec ps (fr, dm, bc, bs, n) = Inr (Return r) \<Longrightarrow> expansions r \<le> Suc n"
  "loop_body ev g destSpec ps (fr, dm, bc, bs, n) = Inr (Continue v') \<Longrightarrow> snd (snd (snd (snd v'))) = Suc n"
  by (auto simp: loop_body_def Let_def
             split: if_splits list.splits sum.splits bool.splits option.splits prod.splits)

text \<open>
  C1. The claim is that the search returns a status for every graph and never throws. On
  the direct-flight graph (origin A, destination area \<open>{B}\<close>, default parameters, a clock
  that stands still) the first pop is A, which is not a destination and has one outgoing
  leg; \<open>shouldPrune\<close> then reads \<open>partial.origin.lat\<close> on a state without \<open>origin\<close>, and
  the search ends in a \<open>TypeError\<close> instead of a result.
\<close>

theorem search_direct_flight_throws:
  "searchItinerariesDoorToDoor still_env graphAB (area_of [nodeA]) (area_of [nodeB]) default_params
     = Inl TypeError"
  by (simp add: searchItinerariesDoorToDoor_def area_of_def nodeA_def nodeB_def createState_def
      loop_body_def still_env_def default_params_def dflt_def sort_frontier_def isDestination_def
      graphAB_def first_dest_id_def shouldPrune_state_throws search_loop.simps)

text \<open>
  C2. The claim is that a search that found a solution and then emptied its frontier
  returns \<open>OK\<close> with that solution. With A the only origin node and the destination area
  \<open>{A}\<close>, the seed state is popped, matches the destination and becomes the best state;
  the frontier is then empty, the loop ends, and the code returns \<open>NO_FEASIBLE_ROUTE\<close> with
  a null itinerary.
\<close>

theorem search_origin_is_destination_no_route:
  "searchItinerariesDoorToDoor still_env graphAB (area_of [nodeA]) (area_of [nodeA]) default_params
     = Inr \<lparr> search_status = NO_FEASIBLE_ROUTE, best_itinerary = None, expansions = 1 \<rparr>"
  by (simp add: searchItinerariesDoorToDoor_def area_of_def nodeA_def createState_def
      loop_body_def still_env_def default_params_def dflt_def sort_frontier_def isDestination_def
      graphAB_def search_loop.simps)

text \<open>
  C5, as claimed: with \<open>maxExpansions = 0\<close> the result is \<open>TIME_BUDGET_EXHAUSTED\<close> and no
  state is expanded. On the graph without edges, origin A and destination area \<open>{B}\<close>, the
  check \<open>expansions > maxExpansions\<close> is \<open>0 > 0\<close>: A is popped, it has no outgoing leg, the
  frontier is empty and the result is \<open>NO_FEASIBLE_ROUTE\<close> after one expansion.
\<close>

theorem maxExpansions_zero_counterexample:
  "searchItinerariesDoorToDoor still_env graphNoEdges (area_of [nodeA]) (area_of [nodeB])
       (default_params \<lparr> maxExpansions := Some 0 \<rparr>)
     = Inr \<lparr> search_status = NO_FEASIBLE_ROUTE, best_itinerary = None, expansions = 1 \<rparr>"
  by (simp add: searchItinerariesDoorToDoor_def area_of_def nodeA_def nodeB_def createState_def
      loop_body_def still_env_def default_params_def dflt_def sort_frontier_def isDestination_def
      graphNoEdges_def search_loop.simps)

text \<open>
  C5, amended. The budget is checked at the head of each pass of the loop, before the pop,
  by \<open>expansions > maxExpansions\<close>. With \<open>maxExpansions = 0\<close>: a pass entered with a
  non-empty frontier once a state has been popped returns \<open>TIME_BUDGET_EXHAUSTED\<close> with
  the best state so far (null if there is none) and pops nothing; a search without origin
  nodes never enters the loop and returns \<open>NO_FEASIBLE_ROUTE\<close>; and no search that returns
  reports more than one expansion.
\<close>

theorem maxExpansions_zero_budget:
  assumes "maxExpansions ps = Some 0"
  shows "(fr \<noteq> [] \<and> 0 < n \<longrightarrow>
            search_loop ev g destSpec ps (fr, dm, bc, bs, n) =
              Inr \<lparr> search_status = TIME_BUDGET_EXHAUSTED, best_itinerary = bs, expansions = n \<rparr>)
       \<and> (nodes emptySpec = [] \<longrightarrow>
            searchItinerariesDoorToDoor ev g emptySpec destSpec ps =
              Inr \<lparr> search_status = NO_FEASIBLE_ROUTE, best_itinerary = None, expansions = 0 \<rparr>)
       \<and> (searchItinerariesDoorToDoor ev g originSpec destSpec ps = Inr r \<longrightarrow> expansions r \<le> 1)"
proof (intro conjI impI)
  assume "fr \<noteq> [] \<and> 0 < n"
  then show "search_loop ev g destSpec ps (fr, dm, bc, bs, n) =
      Inr \<lparr> search_status = TIME_BUDGET_EXHAUSTED, best_itinerary = bs, expansions = n \<rparr>"
    using assms by (simp add: search_loop_over_budget dflt_def)
next
  assume "nodes emptySpec = []"
  then show "searchItinerariesDoorToDoor ev g emptySpec destSpec ps =
      Inr \<lparr> search_status = NO_FEASIBLE_ROUTE, best_itinerary = None, expansions = 0 \<rparr>"
    by (simp add: searchItinerariesDoorToDoor_def search_loop_empty)
next
  assume r: "searchItinerariesDoorToDoor ev g originSpec destSpec ps = Inr r"
  let ?fr = "seed_frontier ev 0 (nodes originSpec)"
  let ?v = "(?fr, Map.empty, None, None, 0) :: loop_vars"
  show "expansions r \<le> 1"
  proof (cases "?fr = []")
    case True
    with r show ?thesis by (auto simp: searchItinerariesDoorToDoor_def search_loop_empty)
  next
    case False
    show ?thesis
    proof (cases "loop_body ev g destSpec ps ?v")
      case (Inl e)
      with r False show ?thesis
        by (simp add: searchItinerariesDoorToDoor_def search_loop.simps [of _ _ _ _ ?v])
    next
      case (Inr sr)
      show ?thesis
      proof (cases sr)
        case (Return r')
        with Inr r False have "r' = r"
          by (simp add: searchItinerariesDoorToDoor_def search_loop.simps [of _ _ _ _ ?v])
        with Inr Return loop_body_counts(1) [where r = r and n = 0]
        show ?thesis by simp
      next
        case (Continue v')
        obtain fr' dm' bc' bs' n' where v': "v' = (fr', dm', bc', bs', n')"
          by (cases v') auto
        from Inr Continue loop_body_counts(2) [where v' = v' and n = 0] v'
        have n': "n' = 1" by simp
        from Inr Continue r False v'
        have eq: "search_loop ev g destSpec ps (fr', dm', bc', bs', n') = Inr r"
          by (simp add: searchItinerariesDoorToDoor_def search_loop.simps [of _ _ _ _ ?v])
        show ?thesis
        proof (cases "fr' = []")
          case True
          with eq n' show ?thesis by (auto simp: search_loop_empty)
        next
          case False
          with eq n' assms show ?thesis by (auto simp: search_loop_over_budget dflt_def)
        qed
      qed
    qed
  qed
qed

text \<open>
  The amended C5 at work: two origin nodes, neither a destination, no edges. The first is
  popped; at the second check one state is left and the budget of 0 is exceeded.
\<close>

theorem maxExpansions_zero_budget_witness:
  "maxExpansions (default_params \<lparr> maxExpansions := Some 0 \<rparr>) = Some 0
   \<and> [createState (Num 2) 0 (Some 0) (Some 0) []] \<noteq> [] \<and> (0::nat) < 1
   \<and> search_loop still_env graphNoEdges (area_of []) (default_params \<lparr> maxExpansions := Some 0 \<rparr>)
        ([createState (Num 2) 0 (Some 0) (Some 0) []], Map.empty, None, None, 1)
       = Inr \<lparr> search_status = TIME_BUDGET_EXHAUSTED, best_itinerary = None, expansions = 1 \<rparr>
   \<and> nodes (area_of []) = []
   \<and> searchItinerariesDoorToDoor still_env graphNoEdges (area_of []) (area_of [])
        (default_params \<lparr> maxExpansions := Some 0 \<rparr>)
       = Inr \<lparr> search_status = NO_FEASIBLE_ROUTE, best_itinerary = None, expansions = 0 \<rparr>
   \<and> searchItinerariesDoorToDoor still_env graphNoEdges (area_of [nodeA, nodeB]) (area_of [])
        (default_params \<lparr> maxExpansions := Some 0 \<rparr>)
       = Inr \<lparr> search_status = TIME_BUDGET_EXHAUSTED, best_itinerary = None, expansions = 1 \<rparr>
   \<and> expansions \<lparr> search_status = TIME_BUDGET_EXHAUSTED, best_itinerary = None, expansions = 1 \<rparr> \<le> 1"
proof -
  let ?ps = "default_params \<lparr> maxExpansions := Some 0 \<rparr>"
  have m: "maxExpansions ?ps = Some 0" by simp
  have run: "searchItinerariesDoorToDoor still_env graphNoEdges (area_of [nodeA, nodeB]) (area_of []) ?ps
       = Inr \<lparr> search_status = TIME_BUDGET_EXHAUSTED, best_itinerary = None, expansions = 1 \<rparr>"
    by (simp add: searchItinerariesDoorToDoor_def area_of_def nodeA_def nodeB_def createState_def
        loop_body_def still_env_def default_params_def dflt_def sort_frontier_def isDestination_def
        graphNoEdges_def num_gt_def search_loop.simps)
  have e: "nodes (area_of []) = []" by (simp add: area_of_def)
  show ?thesis
    using maxExpansions_zero_budget [OF m, where fr = "[createState (Num 2) 0 (Some 0) (Some 0) []]"
        and n = 1 and emptySpec = "area_of []" and originSpec = "area_of [nodeA, nodeB]"
        and ev = still_env and g = graphNoEdges and destSpec = "area_of []"
        and dm = Map.empty and bc = None and bs = None
        and r = "\<lparr> search_status = TIME_BUDGET_EXHAUSTED, best_itinerary = None, expansions = 1 \<rparr>"]
      run e
    by simp
qed

section \<open>Successor generation and dominance\<close>






text \<open>
  On its own, \<open>isDominated\<close> drops a state whose numeric cost equals the recorded one
  (\<open>prevBest <= state.genCost\<close>).
\<close>

lemma isDominated_tie:
  "dm (makeDominanceKey (nodeId s) (arrivalTimeUtc s)) = Some (Some c) \<Longrightarrow> genCost s = Some c
   \<Longrightarrow> fst (isDominated s dm)"
  by (simp add: isDominated_def num_le_def Let_def)

text \<open>The cost that a leg adds does not depend on the arrival time of the boarding state.\<close>

lemma computeLeg_time_indep:
  "computeLegGeneralizedCost (p \<lparr> partial_arrivalTimeUtc := t \<rparr>) l ps = computeLegGeneralizedCost p l ps"
  by (simp add: computeLegGeneralizedCost_def)





section \<open>The lower bound\<close>

lemma estimateLowerBound_nodes:
  "estimateLowerBound (Some (node_obj a)) (Some (node_obj b)) ps
     = Inr (Some (dflt 20 (timeValuePerHour ps) * (distApprox a b / 700)))"
proof -
  have "\<not> (lat a - lat b) * (lat a - lat b) + (lon a - lon b) * (lon a - lon b) < 0"
    by (simp add: not_less)
  then show ?thesis
    by (simp add: estimateLowerBound_def node_obj_def distApprox_def Let_def
        num_sub_def num_mul_def num_add_def num_sqrt_def num_div_def)
qed

lemma distApprox_triangle: "distApprox a b \<le> distApprox a m + distApprox m b"
proof -
  have "sqrt ((lat a - lat m + (lat m - lat b))\<^sup>2 + (lon a - lon m + (lon m - lon b))\<^sup>2)
      \<le> sqrt ((lat a - lat m)\<^sup>2 + (lon a - lon m)\<^sup>2) + sqrt ((lat m - lat b)\<^sup>2 + (lon m - lon b)\<^sup>2)"
    by (rule real_sqrt_sum_squares_triangle_ineq)
  then show ?thesis
    by (simp add: distApprox_def Let_def power2_eq_square)
qed

lemma distApprox_self: "distApprox a a = 0"
  by (simp add: distApprox_def)

lemma pathGenCost_bound:
  assumes tv: "0 \<le> dflt 20 (timeValuePerHour ps)"
    and tp: "0 \<le> dflt 6 (transferPenalty ps)"
    and rp: "0 \<le> dflt 0 (riskPenalty ps)"
  shows "is_path g u legs d \<Longrightarrow> within_fast_mode ns u legs \<Longrightarrow>
         nodeById ns u = Some a \<Longrightarrow> nodeById ns d = Some b \<Longrightarrow>
         \<exists>c. pathGenCost ps (Some g0) legs = Some c
            \<and> g0 + dflt 20 (timeValuePerHour ps) * (distApprox a b / 700) \<le> c"
proof (induction legs arbitrary: u a g0)
  case Nil
  then have "a = b" by simp
  then show ?case by (simp add: distApprox_self)
next
  case (Cons l ls)
  let ?v = "destination_node_id (edge_leg l)"
  let ?tv = "dflt 20 (timeValuePerHour ps)"
  let ?dur = "minutesBetween (departure_time_utc (offer l)) (arrival_time_utc (offer l)) / 60"
  let ?cash = "(case price_total (offer l) of None \<Rightarrow> 0 | Some c \<Rightarrow> c)"
  from Cons.prems obtain m where m: "nodeById ns ?v = Some m"
    and sp: "distApprox a m \<le> 700 * ?dur" and cash: "0 \<le> ?cash"
    and rest: "within_fast_mode ns ?v ls"
    by (auto split: option.splits)
  from Cons.prems have path: "is_path g ?v ls d" by simp
  let ?g1 = "g0 + ?cash + ?tv * ?dur + (if is_transfer (edge_leg l) = 1 then dflt 6 (transferPenalty ps) else 0)
        + dflt 0 (riskPenalty ps)"
  have step: "newGenCost (computeLegGeneralizedCost
          \<lparr> genCostSoFar = Some g0, transfersSoFar = Some 0, partial_arrivalTimeUtc = 0, origin = None \<rparr> l ps)
        = Some ?g1"
    by (simp add: computeLegGeneralizedCost_def Let_def num_add_def)
  from Cons.IH [OF path rest m Cons.prems(4), of ?g1]
  obtain c where c: "pathGenCost ps (Some ?g1) ls = Some c"
    and le: "?g1 + ?tv * (distApprox m b / 700) \<le> c" by blast
  have "?tv * (distApprox a m / 700) \<le> ?tv * ?dur"
    using sp tv by (intro mult_left_mono) auto
  moreover have "?tv * (distApprox a b / 700) \<le> ?tv * (distApprox a m / 700) + ?tv * (distApprox m b / 700)"
  proof -
    have "distApprox a b / 700 \<le> distApprox a m / 700 + distApprox m b / 700"
      using distApprox_triangle [of a b m] by simp
    then have "?tv * (distApprox a b / 700) \<le> ?tv * (distApprox a m / 700 + distApprox m b / 700)"
      using tv by (rule mult_left_mono)
    then show ?thesis by (simp add: algebra_simps)
  qed
  moreover have "g0 + ?tv * ?dur \<le> ?g1"
    using cash tp rp by simp
  ultimately have "g0 + ?tv * (distApprox a b / 700) \<le> c"
    using le by linarith
  with c step show ?case by simp
qed

text \<open>
  C3, amended. For non-negative \<open>timeValuePerHour\<close>, \<open>transferPenalty\<close> and
  \<open>riskPenalty\<close>, and a destination that is a single node \<open>d\<close> (so that
  \<open>destNodes[0]\<close>, to which the search takes the bound, is the only node that matches the
  destination), the lower bound from \<open>u\<close> to \<open>d\<close> is at most the generalized cost of
  every path in the graph from \<open>u\<close> to a destination-matching node whose legs have
  non-negative prices and cover the straight-line distance between their end nodes at no
  more than 700 km/h.
\<close>

theorem lower_bound_admissible_within_fast_mode:
  assumes "0 \<le> dflt 20 (timeValuePerHour ps)"
    and "0 \<le> dflt 6 (transferPenalty ps)"
    and "0 \<le> dflt 0 (riskPenalty ps)"
    and "nodes destSpec = [dn]"
    and "is_path g u legs (nodeId s)"
    and "isDestination s destSpec = Inr True"
    and "within_fast_mode (graph_nodes g) u legs"
    and "nodeById (graph_nodes g) u = Some a"
    and "nodeById (graph_nodes g) (node_id dn) = Some b"
  shows "\<exists>d lb c. first_dest_id destSpec = Inr d
            \<and> estimateLowerBound (node_ref (graph_nodes g) u) (node_ref (graph_nodes g) d) ps = Inr (Some lb)
            \<and> pathGenCost ps (Some 0) legs = Some c \<and> lb \<le> c"
proof -
  from assms(4,6) have e: "nodeId s = node_id dn"
    by (auto simp: isDestination_def split: if_splits)
  from assms(5) e have path: "is_path g u legs (node_id dn)" by simp
  from pathGenCost_bound [OF assms(1-3) path assms(7-9), of 0]
  obtain c where c: "pathGenCost ps (Some 0) legs = Some c"
    and le: "dflt 20 (timeValuePerHour ps) * (distApprox a b / 700) \<le> c"
    by auto
  have "estimateLowerBound (node_ref (graph_nodes g) u) (node_ref (graph_nodes g) (node_id dn)) ps
      = Inr (Some (dflt 20 (timeValuePerHour ps) * (distApprox a b / 700)))"
    using assms(8,9) by (simp add: node_ref_def estimateLowerBound_nodes)
  moreover have "first_dest_id destSpec = Inr (node_id dn)"
    using assms(4) by (simp add: first_dest_id_def)
  ultimately show ?thesis using c le by blast
qed

text \<open>
  C3, as claimed: the bound never exceeds the cost of a path to a destination-matching
  node. It fails in two ways. With B the destination, the free nine-minute link from A to
  B is a path of cost \<open>20 * 9 / 60 = 3\<close>, and the bound from A to B is
  \<open>20 * 111 / 700 = 111 / 35\<close>. With the destination area \<open>{B, C}\<close>, the metro ride
  from A to C stays far below 700 km/h, ends at the destination-matching node C and costs
  \<open>1 + 20 * 3 / 60 = 2\<close>, while the bound, taken to \<open>destNodes[0] = B\<close>, is again
  \<open>111 / 35\<close>.
\<close>

theorem lower_bound_exceeds_path_cost:
  "is_path graphFast (Num 1) [fastAB] (Num 2)
   \<and> isDestination (createState (Num 2) 1763194140000 (Some 3) (Some 0) [fastAB]) (area_of [nodeB])
       = Inr True
   \<and> first_dest_id (area_of [nodeB]) = Inr (Num 2)
   \<and> estimateLowerBound (node_ref (graph_nodes graphFast) (Num 1))
        (node_ref (graph_nodes graphFast) (Num 2)) default_params = Inr (Some (111 / 35))
   \<and> pathGenCost default_params (Some 0) [fastAB] = Some 3
   \<and> \<not> ((111 / 35 :: real) \<le> 3)
   \<and> is_path graphMetro (Num 1) [metroAC] (Num 3)
   \<and> within_fast_mode (graph_nodes graphMetro) (Num 1) [metroAC]
   \<and> isDestination (createState (Num 3) 1763193780000 (Some 2) (Some 0) [metroAC])
        (area_of [nodeB, nodeC]) = Inr True
   \<and> first_dest_id (area_of [nodeB, nodeC]) = Inr (Num 2)
   \<and> estimateLowerBound (node_ref (graph_nodes graphMetro) (Num 1))
        (node_ref (graph_nodes graphMetro) (Num 2)) default_params = Inr (Some (111 / 35))
   \<and> pathGenCost default_params (Some 0) [metroAC] = Some 2
   \<and> \<not> ((111 / 35 :: real) \<le> 2)"
proof -
  have ids: "nodeById [nodeA, nodeB, nodeC] (Num 1) = Some nodeA"
      "nodeById [nodeA, nodeB, nodeC] (Num 2) = Some nodeB"
      "nodeById [nodeA, nodeB, nodeC] (Num 3) = Some nodeC"
      "nodeById [nodeA, nodeB] (Num 1) = Some nodeA"
      "nodeById [nodeA, nodeB] (Num 2) = Some nodeB"
    by (simp_all add: nodeById_def nodeA_def nodeB_def nodeC_def)
  have d: "distApprox nodeA nodeB = 111" "distApprox nodeA nodeC = 0"
    by (simp_all add: distApprox_def nodeA_def nodeB_def nodeC_def)
  have fast: "within_fast_mode (graph_nodes graphMetro) (Num 1) [metroAC]"
    by (simp add: graphMetro_def metroAC_def ids d minutesBetween_def)
  have costs: "pathGenCost default_params (Some 0) [fastAB] = Some 3"
      "pathGenCost default_params (Some 0) [metroAC] = Some 2"
    by (simp_all add: fastAB_def metroAC_def default_params_def dflt_def
          computeLegGeneralizedCost_def minutesBetween_def num_add_def)
  have lbs: "estimateLowerBound (node_ref (graph_nodes graphFast) (Num 1))
        (node_ref (graph_nodes graphFast) (Num 2)) default_params = Inr (Some (111 / 35))"
      "estimateLowerBound (node_ref (graph_nodes graphMetro) (Num 1))
        (node_ref (graph_nodes graphMetro) (Num 2)) default_params = Inr (Some (111 / 35))"
    by (simp_all add: graphFast_def graphMetro_def node_ref_def ids estimateLowerBound_nodes d
          default_params_def dflt_def)
  have paths: "is_path graphFast (Num 1) [fastAB] (Num 2)"
      "is_path graphMetro (Num 1) [metroAC] (Num 3)"
    by (simp_all add: graphFast_def graphMetro_def fastAB_def metroAC_def)
  have dests: "isDestination (createState (Num 2) 1763194140000 (Some 3) (Some 0) [fastAB]) (area_of [nodeB])
       = Inr True"
      "isDestination (createState (Num 3) 1763193780000 (Some 2) (Some 0) [metroAC])
        (area_of [nodeB, nodeC]) = Inr True"
      "first_dest_id (area_of [nodeB]) = Inr (Num 2)"
      "first_dest_id (area_of [nodeB, nodeC]) = Inr (Num 2)"
    by (simp_all add: isDestination_def createState_def area_of_def first_dest_id_def
          nodeB_def nodeC_def)
  from fast costs lbs paths dests show ?thesis by simp
qed

text \<open>
  The flight of the fixture, to the single destination B, covers the 111 km in 75 minutes:
  the bound \<open>111 / 35\<close> is below its cost 143.
\<close>

theorem lower_bound_admissible_witness:
  "0 \<le> dflt 20 (timeValuePerHour default_params)
   \<and> 0 \<le> dflt 6 (transferPenalty default_params)
   \<and> 0 \<le> dflt 0 (riskPenalty default_params)
   \<and> nodes (area_of [nodeB]) = [nodeB]
   \<and> is_path graphAB (Num 1) [flightAB]
        (nodeId (createState (Num 2) 1763198100000 (Some 143) (Some 0) [flightAB]))
   \<and> isDestination (createState (Num 2) 1763198100000 (Some 143) (Some 0) [flightAB]) (area_of [nodeB])
       = Inr True
   \<and> within_fast_mode (graph_nodes graphAB) (Num 1) [flightAB]
   \<and> nodeById (graph_nodes graphAB) (Num 1) = Some nodeA
   \<and> nodeById (graph_nodes graphAB) (node_id nodeB) = Some nodeB
   \<and> first_dest_id (area_of [nodeB]) = Inr (Num 2)
   \<and> estimateLowerBound (node_ref (graph_nodes graphAB) (Num 1))
        (node_ref (graph_nodes graphAB) (Num 2)) default_params = Inr (Some (111 / 35))
   \<and> pathGenCost default_params (Some 0) [flightAB] = Some 143
   \<and> (111 / 35 :: real) \<le> 143"
proof -
  let ?s = "createState (Num 2) 1763198100000 (Some 143) (Some 0) [flightAB]"
  have h1: "0 \<le> dflt 20 (timeValuePerHour default_params)"
    and h2: "0 \<le> dflt 6 (transferPenalty default_params)"
    and h3: "0 \<le> dflt 0 (riskPenalty default_params)"
    by (simp_all add: default_params_def dflt_def)
  have h4: "nodes (area_of [nodeB]) = [nodeB]"
    by (simp add: area_of_def)
  have h5: "is_path graphAB (Num 1) [flightAB] (nodeId ?s)"
    by (simp add: graphAB_def flightAB_def createState_def)
  have h6: "isDestination ?s (area_of [nodeB]) = Inr True"
    by (simp add: isDestination_def createState_def area_of_def nodeB_def)
  have h8: "nodeById (graph_nodes graphAB) (Num 1) = Some nodeA"
    and h9: "nodeById (graph_nodes graphAB) (node_id nodeB) = Some nodeB"
    by (simp_all add: graphAB_def nodeById_def nodeA_def nodeB_def)
  have h7: "within_fast_mode (graph_nodes graphAB) (Num 1) [flightAB]"
    using h8 h9
    by (simp add: flightAB_def nodeB_def) (simp add: distApprox_def nodeA_def nodeB_def minutesBetween_def)
  have fd: "first_dest_id (area_of [nodeB]) = Inr (Num 2)"
    by (simp add: first_dest_id_def area_of_def nodeB_def)
  have lb: "estimateLowerBound (node_ref (graph_nodes graphAB) (Num 1))
        (node_ref (graph_nodes graphAB) (Num 2)) default_params = Inr (Some (111 / 35))"
    using h8 h9
    by (simp add: node_ref_def estimateLowerBound_nodes distApprox_def nodeA_def nodeB_def
          default_params_def dflt_def)
  have c: "pathGenCost default_params (Some 0) [flightAB] = Some 143"
    by (simp add: flightAB_def default_params_def dflt_def
          computeLegGeneralizedCost_def minutesBetween_def num_add_def)
  from lower_bound_admissible_within_fast_mode [OF h1 h2 h3 h4 h5 h6 h7 h8 h9]
    lb c fd h1 h2 h3 h4 h5 h6 h7 h8 h9
  show ?thesis by simp
qed

section \<open>Transfer edges\<close>

lemma arctan_le_self:
  assumes "0 \<le> t"
  shows "arctan t \<le> t"
proof -
  have "(\<lambda>x. x - arctan x) 0 \<le> (\<lambda>x. x - arctan x) t"
  proof (rule DERIV_nonneg_imp_nondecreasing [OF assms])
    fix x :: real
    assume "0 \<le> x"
    have "((\<lambda>x. x - arctan x) has_real_derivative (1 - inverse (1 + x\<^sup>2))) (at x)"
      by (auto intro!: derivative_eq_intros)
    moreover have "0 \<le> 1 - inverse (1 + x\<^sup>2)"
    proof -
      have "1 \<le> 1 + x\<^sup>2" by simp
      then have "inverse (1 + x\<^sup>2) \<le> 1" by (rule inverse_le_1_iff [THEN iffD2, OF disjI2])
      then show ?thesis by simp
    qed
    ultimately show "\<exists>y. ((\<lambda>x. x - arctan x) has_real_derivative y) (at x) \<and> 0 \<le> y"
      by blast
  qed
  then show ?thesis by simp
qed

lemma haversine_60: "haversine 60 0 60 (3 / 100) \<le> 3"
proof -
  let ?x = "pi / 12000"
  let ?s = "sin ?x"
  let ?a = "?s\<^sup>2 / 4"
  have x0: "0 \<le> ?x" by simp
  have xpi: "?x \<le> pi" by simp
  have s0: "0 \<le> ?s" using x0 xpi by (rule sin_ge_zero)
  have sx: "?s \<le> ?x" using x0 by (rule sin_x_le_x)
  have s1: "?s\<^sup>2 \<le> 1"
    using abs_sin_le_one [of ?x] by (simp add: abs_square_le_1)
  have hv: "haversine 60 0 60 (3 / 100) = 6371 * 2 * atan2 (sqrt ?a) (sqrt (1 - ?a))"
    by (simp add: haversine_def Let_def cos_60 power2_eq_square)
  have sa: "sqrt ?a = ?s / 2"
    using s0 by (simp add: real_sqrt_divide)
  have "3 / 4 \<le> 1 - ?a" using s1 by simp
  then have "sqrt ((3 / 4)\<^sup>2) \<le> sqrt (1 - ?a)"
    by (intro real_sqrt_le_mono) (simp add: power2_eq_square)
  then have sb: "3 / 4 \<le> sqrt (1 - ?a)" by simp
  then have pos: "0 < sqrt (1 - ?a)" by linarith
  have at: "atan2 (sqrt ?a) (sqrt (1 - ?a)) = arctan (sqrt ?a / sqrt (1 - ?a))"
    using pos by (simp add: atan2_def)
  have q0: "0 \<le> sqrt ?a / sqrt (1 - ?a)"
    using pos s0 sa by simp
  have "sqrt ?a / sqrt (1 - ?a) \<le> (?x / 2) / (3 / 4)"
    using sa sx s0 sb pos by (intro frac_le) auto
  with arctan_le_self [OF q0] have "arctan (sqrt ?a / sqrt (1 - ?a)) \<le> (?x / 2) / (3 / 4)"
    by linarith
  also have "\<dots> \<le> (4 / 12000 / 2) / (3 / 4)"
    using pi_less_4 by simp
  finally have "atan2 (sqrt ?a) (sqrt (1 - ?a)) \<le> (4 / 12000 / 2) / (3 / 4)"
    using at by simp
  with hv show ?thesis by simp
qed


lemma addTransfersFrom_result:
  "ad (node_id a) = Some out \<Longrightarrow>
   addTransfersFrom now r a bs ad = Inr (ad(node_id a \<mapsto> out @ transfer_arcs now r a bs))"
proof (induction bs arbitrary: ad out)
  case Nil
  then show ?case by (auto simp: transfer_arcs_def)
next
  case (Cons b bs)
  show ?case
  proof (cases "node_id a = node_id b \<or> distApprox a b > r")
    case True
    with Cons.IH [of ad out] Cons.prems show ?thesis
      by (auto simp: transfer_arcs_def)
  next
    case False
    let ?new = "[generateWalkTransfer now a b,
                 generateRideshareTransfer now a b DEFAULT_RIDESHARE_MODEL,
                 generateShuttleTransfer now a b default_shuttle_opts]"
    let ?ad1 = "ad(node_id a \<mapsto> out @ ?new)"
    have ih: "addTransfersFrom now r a bs ?ad1
        = Inr (?ad1(node_id a \<mapsto> (out @ ?new) @ transfer_arcs now r a bs))"
      by (rule Cons.IH [of ?ad1 "out @ ?new"]) simp
    have upd: "?ad1(node_id a \<mapsto> (out @ ?new) @ transfer_arcs now r a bs)
        = ad(node_id a \<mapsto> out @ transfer_arcs now r a (b # bs))"
      using False by (simp add: transfer_arcs_def)
    have "addTransfersFrom now r a (b # bs) ad = addTransfersFrom now r a bs ?ad1"
      using False Cons.prems by simp
    with ih upd show ?thesis by (simp only:)
  qed
qed

lemma addTransfersAll_result:
  assumes "distinct (map node_id as)" and "\<forall>a\<in>set as. ad (node_id a) \<noteq> None"
  shows "\<exists>ad'. addTransfersAll now r ns as ad = Inr ad'
      \<and> (\<forall>a\<in>set as. ad' (node_id a) = Some (the (ad (node_id a)) @ transfer_arcs now r a ns))
      \<and> (\<forall>k. k \<notin> set (map node_id as) \<longrightarrow> ad' k = ad k)"
  using assms
proof (induction as arbitrary: ad)
  case Nil
  then show ?case by simp
next
  case (Cons a as)
  from Cons.prems obtain out where out: "ad (node_id a) = Some out" by auto
  let ?ad1 = "ad(node_id a \<mapsto> out @ transfer_arcs now r a ns)"
  have step: "addTransfersFrom now r a ns ad = Inr ?ad1"
    using out addTransfersFrom_result [where ad = ad and out = out] by simp
  from Cons.prems have d: "distinct (map node_id as)" and na: "node_id a \<notin> set (map node_id as)"
    by auto
  from Cons.prems na have "\<forall>b\<in>set as. ?ad1 (node_id b) \<noteq> None" by auto
  from Cons.IH [OF d this] obtain ad' where
    run: "addTransfersAll now r ns as ?ad1 = Inr ad'"
    and inn: "\<forall>b\<in>set as. ad' (node_id b) = Some (the (?ad1 (node_id b)) @ transfer_arcs now r b ns)"
    and out': "\<forall>k. k \<notin> set (map node_id as) \<longrightarrow> ad' k = ?ad1 k"
    by blast
  have "addTransfersAll now r ns (a # as) ad = Inr ad'"
    using step run by simp
  moreover have "ad' (node_id a) = Some (the (ad (node_id a)) @ transfer_arcs now r a ns)"
    using out' na out by simp
  moreover have "\<forall>b\<in>set as. ad' (node_id b) = Some (the (ad (node_id b)) @ transfer_arcs now r b ns)"
  proof
    fix b assume b: "b \<in> set as"
    then have "node_id b \<in> set (map node_id as)" by simp
    with na have "node_id b \<noteq> node_id a" by auto
    with inn b show "ad' (node_id b) = Some (the (ad (node_id b)) @ transfer_arcs now r b ns)"
      by simp
  qed
  moreover have "\<forall>k. k \<notin> set (map node_id (a # as)) \<longrightarrow> ad' k = ad k"
    using out' by auto
  ultimately show ?case by auto
qed

text \<open>
  C6, amended. When the node identifiers are distinct and every node has an adjacency
  entry, \<open>addTransferEdges\<close> returns, and for every node \<open>a\<close> its entry is the old one
  followed, for each node \<open>b\<close> in order, by exactly the three arcs walk, rideshare and
  shuttle from \<open>a\<close> to \<open>b\<close> when \<open>b\<close> has another identifier and
  \<open>sqrt(dlat * dlat + dlon * dlon) * 111\<close> is at most the radius (3 by default), and by
  nothing otherwise; no other entry changes. The test is on this straight-line formula,
  not on the haversine distance.
\<close>

theorem addTransferEdges_by_distApprox:
  assumes "distinct (map node_id ns)" and "\<forall>a\<in>set ns. ad (node_id a) \<noteq> None"
  shows "\<exists>ad'. addTransferEdges now ns ad radiusKm = Inr ad'
      \<and> (\<forall>a\<in>set ns. ad' (node_id a) =
            Some (the (ad (node_id a)) @
              concat (map (\<lambda>b. if node_id a = node_id b \<or> distApprox a b > dflt 3 radiusKm then []
                       else [generateWalkTransfer now a b,
                             generateRideshareTransfer now a b DEFAULT_RIDESHARE_MODEL,
                             generateShuttleTransfer now a b default_shuttle_opts]) ns)))
      \<and> (\<forall>k. k \<notin> set (map node_id ns) \<longrightarrow> ad' k = ad k)"
  using addTransfersAll_result [OF assms, of now "dflt 3 radiusKm" ns]
  by (simp add: addTransferEdges_def transfer_arcs_def)

lemma distApprox_60: "distApprox node60a node60b = 333 / 100"
proof -
  have "sqrt ((3 / 100)\<^sup>2) = (3 / 100 :: real)" by simp
  then show ?thesis
    by (simp add: distApprox_def node60a_def node60b_def power2_eq_square)
qed

text \<open>
  C6, as claimed: every pair within 3 km by haversine receives three arcs. The two nodes
  at 60 degrees north are within 3 km by haversine, have different identifiers, and
  \<open>addTransferEdges\<close> leaves the adjacency as it was.
\<close>

theorem haversine_within_radius_no_transfer:
  "node_id node60a \<noteq> node_id node60b
   \<and> haversine (lat node60a) (lon node60a) (lat node60b) (lon node60b) \<le> 3
   \<and> addTransferEdges 1763190000000 [node60a, node60b] (empty_adj [node60a, node60b]) None
       = Inr (empty_adj [node60a, node60b])"
proof -
  have "haversine (lat node60a) (lon node60a) (lat node60b) (lon node60b) \<le> 3"
    using haversine_60 by (simp add: node60a_def node60b_def)
  moreover have "distApprox node60b node60a = 333 / 100"
    using distApprox_60 by (simp add: distApprox_def Let_def power2_eq_square algebra_simps)
  ultimately show ?thesis
    using distApprox_60
    by (simp add: addTransferEdges_def dflt_def) (simp add: node60a_def node60b_def)
qed

text \<open>
  A and C are at the same place and B is 111 km away: A and C receive the three arcs to
  each other, B receives none.
\<close>

theorem addTransferEdges_by_distApprox_witness:
  "distinct (map node_id [nodeA, nodeB, nodeC])
   \<and> empty_adj [nodeA, nodeB, nodeC] (node_id nodeA) \<noteq> None
   \<and> empty_adj [nodeA, nodeB, nodeC] (node_id nodeB) \<noteq> None
   \<and> empty_adj [nodeA, nodeB, nodeC] (node_id nodeC) \<noteq> None
   \<and> (\<exists>ad'. addTransferEdges 1763190000000 [nodeA, nodeB, nodeC] (empty_adj [nodeA, nodeB, nodeC]) None
              = Inr ad'
        \<and> ad' (Num 1) = Some [generateWalkTransfer 1763190000000 nodeA nodeC,
                               generateRideshareTransfer 1763190000000 nodeA nodeC DEFAULT_RIDESHARE_MODEL,
                               generateShuttleTransfer 1763190000000 nodeA nodeC default_shuttle_opts]
        \<and> ad' (Num 2) = Some []
        \<and> ad' (Num 3) = Some [generateWalkTransfer 1763190000000 nodeC nodeA,
                               generateRideshareTransfer 1763190000000 nodeC nodeA DEFAULT_RIDESHARE_MODEL,
                               generateShuttleTransfer 1763190000000 nodeC nodeA default_shuttle_opts])"
proof -
  let ?ns = "[nodeA, nodeB, nodeC]"
  have h1: "distinct (map node_id ?ns)"
    by (simp add: nodeA_def nodeB_def nodeC_def)
  have h2: "\<forall>a\<in>set ?ns. empty_adj ?ns (node_id a) \<noteq> None"
    by (simp add: empty_adj_def)
  have d: "distApprox nodeA nodeB = 111" "distApprox nodeB nodeA = 111"
      "distApprox nodeA nodeC = 0" "distApprox nodeC nodeA = 0"
      "distApprox nodeB nodeC = 111" "distApprox nodeC nodeB = 111"
    by (simp_all add: distApprox_def nodeA_def nodeB_def nodeC_def)
  have i: "node_id nodeA = Num 1" "node_id nodeB = Num 2" "node_id nodeC = Num 3"
    by (simp_all add: nodeA_def nodeB_def nodeC_def)
  from addTransferEdges_by_distApprox [OF h1 h2, of 1763190000000 None]
  obtain ad' where
    r: "addTransferEdges 1763190000000 ?ns (empty_adj ?ns) None = Inr ad'"
    and a: "\<forall>a\<in>set ?ns. ad' (node_id a) =
            Some (the (empty_adj ?ns (node_id a)) @
              concat (map (\<lambda>b. if node_id a = node_id b \<or> distApprox a b > dflt 3 None then []
                       else [generateWalkTransfer 1763190000000 a b,
                             generateRideshareTransfer 1763190000000 a b DEFAULT_RIDESHARE_MODEL,
                             generateShuttleTransfer 1763190000000 a b default_shuttle_opts]) ?ns))"
    by blast
  from a have "ad' (Num 1) = Some [generateWalkTransfer 1763190000000 nodeA nodeC,
                               generateRideshareTransfer 1763190000000 nodeA nodeC DEFAULT_RIDESHARE_MODEL,
                               generateShuttleTransfer 1763190000000 nodeA nodeC default_shuttle_opts]"
      and "ad' (Num 2) = Some []"
      and "ad' (Num 3) = Some [generateWalkTransfer 1763190000000 nodeC nodeA,
                               generateRideshareTransfer 1763190000000 nodeC nodeA DEFAULT_RIDESHARE_MODEL,
                               generateShuttleTransfer 1763190000000 nodeC nodeA default_shuttle_opts]"
    by (simp_all add: d i empty_adj_def dflt_def)
  with r h1 h2 show ?thesis by auto
qed

section \<open>The API cache\<close>

text \<open>
  C9. The claim is that every key of every nested object enters the serialization, so that
  two objects that differ in a nested value have different serializations. The replacer
  array \<open>Object.keys(obj).sort()\<close> holds the top-level keys only, and
  \<open>JSON.stringify\<close> applies it at every depth: of \<open>{a: {b: 1}}\<close> and of
  \<open>{a: {b: 2}}\<close> it writes \<open>{"a":{}}\<close>, and the two hashes are equal.
\<close>

theorem canonicalHash_drops_nested_keys:
  "canonicalHash lib [(''a'', JObj [(''b'', JNum 1)])]
     = sha256_hex lib (''{'' @ quote_json lib ''a'' @ '':{}}'')
   \<and> canonicalHash lib [(''a'', JObj [(''b'', JNum 2)])]
     = sha256_hex lib (''{'' @ quote_json lib ''a'' @ '':{}}'')"
  by (simp add: canonicalHash_def sort_keys_def List.map_filter_def)

text \<open>
  C10, amended. An error of the SELECT of \<open>apiCacheGet\<close> or of the INSERT of
  \<open>apiCachePut\<close> is handed to the caller: the promise is rejected with the error of the
  store, for every provider, endpoint and parameters, and the rows are left as they were.
  An error of the UPDATE that \<open>apiCacheGet\<close> sends on a hit is not handed to the caller:
  the promise ends as it does when the UPDATE succeeds, and the rows are left as they
  were. \<open>apiCacheGet\<close> resolves to null when the SELECT answers and finds no row for the
  key.
\<close>

theorem cache_errors_are_rejections:
  "(select_error d = Some err \<longrightarrow> apiCacheGet lib now d prov endp ps = (Rejected err, d))
   \<and> (insert_error d = Some err \<longrightarrow>
        apiCachePut lib now d prov endp ps response ttlHours = (Rejected err, d))
   \<and> fst (apiCacheGet lib now (d \<lparr> update_error := Some err \<rparr>) prov endp ps)
       = fst (apiCacheGet lib now (d \<lparr> update_error := None \<rparr>) prov endp ps)
   \<and> snd (apiCacheGet lib now (d \<lparr> update_error := Some err \<rparr>) prov endp ps)
       = d \<lparr> update_error := Some err \<rparr>
   \<and> (select_error d = None \<and> find (same_key prov endp (canonicalHash lib ps)) (api_cache d) = None \<longrightarrow>
        apiCacheGet lib now d prov endp ps = (Resolved JNull, d))"
  by (auto simp: apiCacheGet_def apiCachePut_def Let_def split: option.splits)

text \<open>
  C10, as claimed: \<open>apiCacheGet\<close> resolves to null on a store error. With a database
  that cannot be opened the SELECT fails and the promise is rejected with that error.
\<close>

theorem cache_get_store_error_rejects:
  "apiCacheGet stub_lib 1763190000000 ((db_of []) \<lparr> select_error := Some ''SQLITE_CANTOPEN'' \<rparr>)
       ''tequila'' ''search'' nycParams
     = (Rejected ''SQLITE_CANTOPEN'', (db_of []) \<lparr> select_error := Some ''SQLITE_CANTOPEN'' \<rparr>)"
  by (simp add: apiCacheGet_def Let_def)

text \<open>
  A busy store makes the SELECT and the INSERT reject. A hit at 07:00 on the stored row,
  with an UPDATE that fails, resolves to the stored body and leaves the hit count at 0. An
  empty table gives a miss.
\<close>

theorem cache_errors_are_rejections_witness:
  "select_error ((db_of [cachedRow]) \<lparr> select_error := Some ''SQLITE_BUSY'' \<rparr>) = Some ''SQLITE_BUSY''
   \<and> apiCacheGet stub_lib 1763190000000 ((db_of [cachedRow]) \<lparr> select_error := Some ''SQLITE_BUSY'' \<rparr>)
        ''tequila'' ''search'' nycParams
       = (Rejected ''SQLITE_BUSY'', (db_of [cachedRow]) \<lparr> select_error := Some ''SQLITE_BUSY'' \<rparr>)
   \<and> insert_error ((db_of []) \<lparr> insert_error := Some ''SQLITE_BUSY'' \<rparr>) = Some ''SQLITE_BUSY''
   \<and> apiCachePut stub_lib 1763190000000 ((db_of []) \<lparr> insert_error := Some ''SQLITE_BUSY'' \<rparr>)
        ''tequila'' ''search'' nycParams (JArr []) None
       = (Rejected ''SQLITE_BUSY'', (db_of []) \<lparr> insert_error := Some ''SQLITE_BUSY'' \<rparr>)
   \<and> apiCacheGet stub_lib 1763190000000 ((db_of [cachedRow]) \<lparr> update_error := Some ''SQLITE_READONLY'' \<rparr>)
        ''tequila'' ''search'' nycParams
       = (Resolved (JStr ''[]''), (db_of [cachedRow]) \<lparr> update_error := Some ''SQLITE_READONLY'' \<rparr>)
   \<and> fst (apiCacheGet stub_lib 1763190000000 (db_of [cachedRow]) ''tequila'' ''search'' nycParams)
       = Resolved (JStr ''[]'')
   \<and> select_error (db_of []) = None
   \<and> find (same_key ''tequila'' ''search'' (canonicalHash stub_lib nycParams)) (api_cache (db_of [])) = None
   \<and> apiCacheGet stub_lib 1763190000000 (db_of []) ''tequila'' ''search'' nycParams
       = (Resolved JNull, db_of [])"
proof -
  let ?busy = "(db_of [cachedRow]) \<lparr> select_error := Some ''SQLITE_BUSY'' \<rparr>"
  let ?full = "(db_of []) \<lparr> insert_error := Some ''SQLITE_BUSY'' \<rparr>"
  have hit: "fst (apiCacheGet stub_lib 1763190000000 ((db_of [cachedRow]) \<lparr> update_error := None \<rparr>)
        ''tequila'' ''search'' nycParams) = Resolved (JStr ''[]'')"
    by (simp add: apiCacheGet_def Let_def db_of_def same_key_def cachedRow_def stub_lib_def)
  have same: "(db_of [cachedRow]) \<lparr> update_error := None \<rparr> = db_of [cachedRow]"
    by (simp add: db_of_def)
  have h1: "select_error ?busy = Some ''SQLITE_BUSY''" by simp
  have h2: "insert_error ?full = Some ''SQLITE_BUSY''" by simp
  have h3: "select_error (db_of []) = None
      \<and> find (same_key ''tequila'' ''search'' (canonicalHash stub_lib nycParams)) (api_cache (db_of [])) = None"
    by (simp add: db_of_def)
  note t1 = cache_errors_are_rejections [where d = ?busy and err = "''SQLITE_BUSY''"
      and lib = stub_lib and now = 1763190000000 and prov = "''tequila''" and endp = "''search''"
      and ps = nycParams]
  note t2 = cache_errors_are_rejections [where d = ?full and err = "''SQLITE_BUSY''"
      and lib = stub_lib and now = 1763190000000 and prov = "''tequila''" and endp = "''search''"
      and ps = nycParams and response = "JArr []" and ttlHours = None]
  note t3 = cache_errors_are_rejections [where d = "db_of [cachedRow]" and err = "''SQLITE_READONLY''"
      and lib = stub_lib and now = 1763190000000 and prov = "''tequila''" and endp = "''search''"
      and ps = nycParams]
  note t4 = cache_errors_are_rejections [where d = "db_of []"
      and lib = stub_lib and now = 1763190000000 and prov = "''tequila''" and endp = "''search''"
      and ps = nycParams]
  from t1 h1 have a: "apiCacheGet stub_lib 1763190000000 ?busy ''tequila'' ''search'' nycParams
      = (Rejected ''SQLITE_BUSY'', ?busy)" by blast
  from t2 h2 have b: "apiCachePut stub_lib 1763190000000 ?full ''tequila'' ''search'' nycParams (JArr []) None
      = (Rejected ''SQLITE_BUSY'', ?full)" by blast
  from t3 hit have c: "apiCacheGet stub_lib 1763190000000
        ((db_of [cachedRow]) \<lparr> update_error := Some ''SQLITE_READONLY'' \<rparr>) ''tequila'' ''search'' nycParams
      = (Resolved (JStr ''[]''), (db_of [cachedRow]) \<lparr> update_error := Some ''SQLITE_READONLY'' \<rparr>)"
    by (simp add: prod_eq_iff)
  from t4 h3 have e: "apiCacheGet stub_lib 1763190000000 (db_of []) ''tequila'' ''search'' nycParams
      = (Resolved JNull, db_of [])" by blast
  from a b c e h1 h2 h3 hit same show ?thesis by simp
qed

end
